theory Spec2Isabelle
  imports Complex_Main "HOL-Library.Sublist"
begin

section \<open>Text primitives\<close>

text \<open>
  Python strings are modelled as \<open>string\<close> (lists of 8-bit characters); the page text
  handed over by the PDF extractor is taken to be ASCII, so the character classes
  below are the ASCII parts of Python's \<open>str.isspace\<close>, \<open>\d\<close>, \<open>\w\<close>,
  \<open>str.lower\<close>.
\<close>

definition is_space :: "char \<Rightarrow> bool" where
  "is_space c = (c \<in> set [CHR 0x09, CHR 0x0A, CHR 0x0B, CHR 0x0C, CHR 0x0D,
                             CHR 0x1C, CHR 0x1D, CHR 0x1E, CHR 0x1F, CHR 0x20])"

definition is_digit :: "char \<Rightarrow> bool" where
  "is_digit c = (c \<in> set ''0123456789'')"

definition is_upper :: "char \<Rightarrow> bool" where
  "is_upper c = (c \<in> set ''ABCDEFGHIJKLMNOPQRSTUVWXYZ'')"

definition is_lower :: "char \<Rightarrow> bool" where
  "is_lower c = (c \<in> set ''abcdefghijklmnopqrstuvwxyz'')"

definition is_word :: "char \<Rightarrow> bool" where
  "is_word c = (is_digit c \<or> is_upper c \<or> is_lower c \<or> c = CHR ''_'')"

definition lower_char :: "char \<Rightarrow> char" where
  "lower_char c =
     (case map_of (zip ''ABCDEFGHIJKLMNOPQRSTUVWXYZ'' ''abcdefghijklmnopqrstuvwxyz'') c of
        Some d \<Rightarrow> d
      | None \<Rightarrow> c)"

definition py_lower :: "string \<Rightarrow> string" where
  "py_lower s = map lower_char s"

text \<open>Python's \<open>needle in hay\<close> on strings.\<close>

fun contains :: "string \<Rightarrow> string \<Rightarrow> bool" where
  "contains needle [] = (needle = [])"
| "contains needle (c # cs) = (prefix needle (c # cs) \<or> contains needle cs)"

section \<open>Vendor detection (custom\_parsers.py, \<open>detect_vendor\<close>)\<close>

definition detect_vendor :: "string \<Rightarrow> string" where
  "detect_vendor t =
    (if contains ''ITOYA'' t \<and> contains ''Item Description UOM'' t then ''itoya''
     else if contains ''Luxury Brands'' t \<or> contains ''luxurybrands'' (py_lower t)
       then ''luxury_brands''
     else if contains ''Rediform'' t \<or> contains ''REDIFORM'' t then ''rediform''
     else if contains (''Tom'' @ [CHR 0x27] @ ''s Studio'') t then ''toms_studio''
     else if contains ''Coles'' t \<and> contains ''McAlpine Park Drive'' t then ''coles''
     else if contains ''Lamy USA'' t \<or> contains ''LAMY'' t then ''lamy''
     else if contains ''PCAINV'' t \<and> contains ''DALLAS, TX'' t then ''pilot''
     else if contains ''Montblanc North America'' t then ''montblanc''
     else if contains ''Lighthouse Publications'' t then ''lighthouse''
     else if contains ''Retro 1951'' t \<or> contains ''retro51.com'' t then ''retro51''
     else if contains ''TWSBI INC'' t then ''twsbi''
     else if contains ''Write USA LLC'' t then ''writeusa''
     else if contains ''Kenro Industries'' t then ''kenro''
     else if contains ''AVANTI PRESS'' t then ''avanti''
     else if contains ''PLOTTER USA'' t \<or> contains ''plotterusa.com'' (py_lower t)
       then ''plotter''
     else if contains ''ORDER NUMBER'' t \<and> contains ''SL_'' t then ''tsl''
     else if contains ''EXACLAIR, INC.'' t \<or> contains ''EXACLAIR'' t then ''exaclair''
     else if contains ''uni-ball Corporation'' t \<or> contains ''uni-ball'' t then ''uniball''
     else if contains ''Ameico'' t \<and> contains ''New Milford CT'' t then ''ameico''
     else if contains ''CHARTPAK'' t \<or> contains ''CHARTPAK, INC'' t then ''chartpak''
     else if contains ''JPT AMERICA'' t \<or> contains ''jptamerica'' (py_lower t) then ''jpt''
     else if contains ''Abledesign Entertainment'' t \<or> contains ''Order Sheet'' t
       then ''wearingeul''
     else if contains ''Elite Accessories'' t \<or> contains ''ELITE ACCESSORIES'' t
       then ''elite_accessories''
     else '''')"

text \<open>
  The specification's reading of the same function: an ordered list of
  (predicate, identifier) rules, the first matching rule giving the result.
\<close>

definition vendor_rules :: "((string \<Rightarrow> bool) \<times> string) list" where
  "vendor_rules =
    [(\<lambda>t. contains ''ITOYA'' t \<and> contains ''Item Description UOM'' t, ''itoya''),
     (\<lambda>t. contains ''Luxury Brands'' t \<or> contains ''luxurybrands'' (py_lower t),
        ''luxury_brands''),
     (\<lambda>t. contains ''Rediform'' t \<or> contains ''REDIFORM'' t, ''rediform''),
     (\<lambda>t. contains (''Tom'' @ [CHR 0x27] @ ''s Studio'') t, ''toms_studio''),
     (\<lambda>t. contains ''Coles'' t \<and> contains ''McAlpine Park Drive'' t, ''coles''),
     (\<lambda>t. contains ''Lamy USA'' t \<or> contains ''LAMY'' t, ''lamy''),
     (\<lambda>t. contains ''PCAINV'' t \<and> contains ''DALLAS, TX'' t, ''pilot''),
     (\<lambda>t. contains ''Montblanc North America'' t, ''montblanc''),
     (\<lambda>t. contains ''Lighthouse Publications'' t, ''lighthouse''),
     (\<lambda>t. contains ''Retro 1951'' t \<or> contains ''retro51.com'' t, ''retro51''),
     (\<lambda>t. contains ''TWSBI INC'' t, ''twsbi''),
     (\<lambda>t. contains ''Write USA LLC'' t, ''writeusa''),
     (\<lambda>t. contains ''Kenro Industries'' t, ''kenro''),
     (\<lambda>t. contains ''AVANTI PRESS'' t, ''avanti''),
     (\<lambda>t. contains ''PLOTTER USA'' t \<or> contains ''plotterusa.com'' (py_lower t), ''plotter''),
     (\<lambda>t. contains ''ORDER NUMBER'' t \<and> contains ''SL_'' t, ''tsl''),
     (\<lambda>t. contains ''EXACLAIR, INC.'' t \<or> contains ''EXACLAIR'' t, ''exaclair''),
     (\<lambda>t. contains ''uni-ball Corporation'' t \<or> contains ''uni-ball'' t, ''uniball''),
     (\<lambda>t. contains ''Ameico'' t \<and> contains ''New Milford CT'' t, ''ameico''),
     (\<lambda>t. contains ''CHARTPAK'' t \<or> contains ''CHARTPAK, INC'' t, ''chartpak''),
     (\<lambda>t. contains ''JPT AMERICA'' t \<or> contains ''jptamerica'' (py_lower t), ''jpt''),
     (\<lambda>t. contains ''Abledesign Entertainment'' t \<or> contains ''Order Sheet'' t,
        ''wearingeul''),
     (\<lambda>t. contains ''Elite Accessories'' t \<or> contains ''ELITE ACCESSORIES'' t,
        ''elite_accessories'')]"

fun first_match :: "((string \<Rightarrow> bool) \<times> string) list \<Rightarrow> string \<Rightarrow> string" where
  "first_match [] t = ''''"
| "first_match ((p, v) # rs) t = (if p t then v else first_match rs t)"

definition vendor_ids :: "string list" where
  "vendor_ids =
    [''itoya'', ''luxury_brands'', ''rediform'', ''toms_studio'', ''coles'', ''lamy'',
     ''pilot'', ''montblanc'', ''lighthouse'', ''retro51'', ''twsbi'', ''writeusa'',
     ''kenro'', ''avanti'', ''plotter'', ''tsl'', ''exaclair'', ''uniball'', ''ameico'',
     ''chartpak'', ''jpt'', ''wearingeul'', ''elite_accessories'']"

section \<open>Regular expressions (the fragment of Python's \<open>re\<close> the scanners use)\<close>

text \<open>
  A pattern is matched by backtracking, as \<open>re\<close> does: \<open>rx_run r (s, cs)\<close> lists every
  way \<open>r\<close> can match a prefix of \<open>s\<close>, as pairs of the unmatched rest and the capture
  groups, in the order in which the backtracking search reaches them (a greedy
  repetition tries the longest run first, a lazy one the shortest, an alternation
  its left branch first). The head of the list is the match \<open>re.match\<close> returns.
  Repetition is over single characters of a class, which is all the patterns
  modelled here need. A leading \<open>^\<close> is left out of the patterns: \<open>re.match\<close> only
  matches at the start of the string.
\<close>

type_synonym caps = "(nat \<times> string) list"

datatype regex =
    Lit string
  | Rep "char \<Rightarrow> bool" nat "nat option" bool
  | Seq regex regex
  | Alt regex regex
  | Opt regex
  | Grp nat regex
  | Eol

text \<open>
  \<open>rep_suffixes p lo hi s\<close>: what is left of \<open>s\<close> after consuming \<open>k\<close> characters of
  class \<open>p\<close>, for every admissible count \<open>k\<close> between \<open>lo\<close> and \<open>hi\<close>, shortest run first.
\<close>

fun rep_suffixes :: "(char \<Rightarrow> bool) \<Rightarrow> nat \<Rightarrow> nat option \<Rightarrow> string \<Rightarrow> string list" where
  "rep_suffixes p lo hi [] = (if lo = 0 then [[]] else [])"
| "rep_suffixes p lo hi (c # cs) =
     (if lo = 0 then [c # cs] else []) @
     (if p c \<and> hi \<noteq> Some 0
      then rep_suffixes p (lo - 1) (map_option (\<lambda>h. h - 1) hi) cs
      else [])"

fun rx_run :: "regex \<Rightarrow> string \<times> caps \<Rightarrow> (string \<times> caps) list" where
  "rx_run (Lit w) (s, cs) = (if prefix w s then [(drop (length w) s, cs)] else [])"
| "rx_run (Rep p lo hi greedy) (s, cs) =
     map (\<lambda>s'. (s', cs))
       (if greedy then rev (rep_suffixes p lo hi s) else rep_suffixes p lo hi s)"
| "rx_run (Seq a b) st = concat (map (rx_run b) (rx_run a st))"
| "rx_run (Alt a b) st = rx_run a st @ rx_run b st"
| "rx_run (Opt a) st = rx_run a st @ [st]"
| "rx_run (Grp n a) (s, cs) =
     map (\<lambda>(s', cs'). (s', (n, take (length s - length s') s) # cs')) (rx_run a (s, cs))"
| "rx_run Eol (s, cs) = (if s = [] \<or> s = [CHR 0x0A] then [(s, cs)] else [])"

fun cat :: "regex list \<Rightarrow> regex" where
  "cat [] = Lit []"
| "cat [r] = r"
| "cat (r # rs) = Seq r (cat rs)"

text \<open>\<open>re.match(pattern, s)\<close>: the capture groups of the first match, or \<open>None\<close>.\<close>

definition re_match :: "regex \<Rightarrow> string \<Rightarrow> caps option" where
  "re_match r s = (case rx_run r (s, []) of [] \<Rightarrow> None | (rest, cs) # more \<Rightarrow> Some cs)"

text \<open>\<open>match.group(n)\<close>; \<open>None\<close> for a group that took no part in the match.\<close>

definition grp :: "caps \<Rightarrow> nat \<Rightarrow> string option" where
  "grp cs n = map_of cs n"

definition grp_str :: "caps \<Rightarrow> nat \<Rightarrow> string" where
  "grp_str cs n = (case map_of cs n of Some w \<Rightarrow> w | None \<Rightarrow> [])"

text \<open>The character classes and pieces the patterns share.\<close>

definition not_nl :: "char \<Rightarrow> bool" where
  "not_nl c = (c \<noteq> CHR 0x0A)"

definition rx_ws1 :: regex where          \<comment> \<open>\<open>\s+\<close>\<close>
  "rx_ws1 = Rep is_space 1 None True"

definition rx_ws0 :: regex where          \<comment> \<open>\<open>\s*\<close>\<close>
  "rx_ws0 = Rep is_space 0 None True"

definition rx_digits :: regex where       \<comment> \<open>\<open>\d+\<close>\<close>
  "rx_digits = Rep is_digit 1 None True"

definition rx_lazy_any :: regex where     \<comment> \<open>\<open>.+?\<close>\<close>
  "rx_lazy_any = Rep not_nl 1 None False"

definition rx_nonspace :: regex where     \<comment> \<open>\<open>\S+\<close>\<close>
  "rx_nonspace = Rep (\<lambda>c. \<not> is_space c) 1 None True"

definition rx_money :: regex where        \<comment> \<open>\<open>[\d,]+\.\d{2}\<close>\<close>
  "rx_money = cat [Rep (\<lambda>c. is_digit c \<or> c = CHR '','') 1 None True, Lit ''.'',
                   Rep is_digit 2 (Some 2) True]"

section \<open>Numbers: Python's \<open>int\<close> and \<open>float\<close> read from text\<close>

text \<open>
  The exceptions the modelled code can raise. A function that can raise returns
  \<open>py_exn + 'a\<close>, \<open>Inl\<close> being the exception.
\<close>

datatype py_exn = ValueError | OverflowError | InvalidOperation

text \<open>
  A Python \<open>float\<close> is an IEEE binary64 value: a rational (the finite values, the
  two zeros identified, which \<open>==\<close> does as well), an infinity or a NaN.
\<close>

datatype pyfloat = F rat | PosInf | NegInf | NaN

text \<open>A number stored in a record: Python keeps \<open>int\<close> and \<open>float\<close> apart.\<close>

datatype pynum = PyInt int | PyFloat pyfloat

definition strip :: "string \<Rightarrow> string" where
  "strip s = rev (dropWhile is_space (rev (dropWhile is_space s)))"

definition digit_val :: "char \<Rightarrow> nat" where
  "digit_val c =
     (case map_of (zip ''0123456789'' [0, 1, 2, 3, 4, 5, 6, 7, 8, 9]) c of
        Some v \<Rightarrow> v
      | None \<Rightarrow> 0)"

definition nat_of_digits :: "string \<Rightarrow> nat" where
  "nat_of_digits ds = foldl (\<lambda>a c. 10 * a + digit_val c) 0 ds"

text \<open>
  Underscores in a numeric literal stand only between two digits
  (\<open>prev\<close> is the character before; the scan starts with a NUL).
\<close>

fun underscores_ok :: "char \<Rightarrow> string \<Rightarrow> bool" where
  "underscores_ok prev [] = (prev \<noteq> CHR ''_'')"
| "underscores_ok prev (c # cs) =
     (if c = CHR ''_'' then is_digit prev \<and> underscores_ok c cs
      else if prev = CHR ''_'' then is_digit c \<and> underscores_ok c cs
      else underscores_ok c cs)"

definition is_sign :: "char \<Rightarrow> bool" where
  "is_sign c = (c = CHR ''+'' \<or> c = CHR ''-'')"

definition drop_sign :: "string \<Rightarrow> string" where
  "drop_sign s = (case s of [] \<Rightarrow> [] | c # cs \<Rightarrow> if is_sign c then cs else c # cs)"

definition is_negative :: "string \<Rightarrow> bool" where
  "is_negative s = (case s of [] \<Rightarrow> False | c # cs \<Rightarrow> c = CHR ''-'')"

text \<open>\<open>int(s)\<close> for a string \<open>s\<close>, base 10.\<close>

definition py_int :: "string \<Rightarrow> py_exn + int" where
  "py_int s =
     (let t = strip s; ds = filter (\<lambda>c. c \<noteq> CHR ''_'') (drop_sign t) in
      if underscores_ok (CHR 0x00) t \<and> ds \<noteq> [] \<and> list_all is_digit ds
      then Inr (if is_negative t then - int (nat_of_digits ds) else int (nat_of_digits ds))
      else Inl ValueError)"

text \<open>
  The decimal part of a float literal, \<open>[digits][.[digits]][(e|E)[sign]digits]\<close> with
  a digit before the exponent: the digits read as one natural number \<open>m\<close> and the
  power of ten \<open>e\<close>, the literal's value being \<open>m * 10^e\<close>.
\<close>

definition parse_float_number :: "string \<Rightarrow> (nat \<times> int) option" where
  "parse_float_number t =
     (let ip = takeWhile is_digit t;
          r1 = dropWhile is_digit t;
          dot = (case r1 of [] \<Rightarrow> False | c # r \<Rightarrow> c = CHR ''.'');
          fp = (if dot then takeWhile is_digit (tl r1) else []);
          r2 = (if dot then dropWhile is_digit (tl r1) else r1);
          m = nat_of_digits (ip @ fp)
      in if ip = [] \<and> fp = [] then None
         else (case r2 of
                 [] \<Rightarrow> Some (m, - int (length fp))
               | c # r3 \<Rightarrow>
                   if (c = CHR ''e'' \<or> c = CHR ''E'')
                      \<and> drop_sign r3 \<noteq> [] \<and> list_all is_digit (drop_sign r3)
                   then Some (m, (if is_negative r3 then - int (nat_of_digits (drop_sign r3))
                                  else int (nat_of_digits (drop_sign r3)))
                                 - int (length fp))
                   else None))"

text \<open>Python's \<open>int.bit_length\<close> on a natural number.\<close>

function bit_length :: "nat \<Rightarrow> nat" where
  "bit_length n = (if n = 0 then 0 else Suc (bit_length (n div 2)))"
  by pat_completeness auto
termination
  by (relation "measure id") auto

declare bit_length.simps [simp del]

definition pow2 :: "int \<Rightarrow> rat" where
  "pow2 k = (if 0 \<le> k then 2 ^ nat k else 1 / 2 ^ nat (- k))"

text \<open>
  \<open>b64_round a b\<close>: the binary64 value nearest to the fraction \<open>a / b\<close> (\<open>b > 0\<close>), ties
  to the even significand; \<open>PosInf\<close> when that overflows. \<open>e\<close> is the exponent of the
  leading bit, kept at \<open>-1022\<close> or above (below that the subnormal spacing applies),
  \<open>k\<close> the exponent of the last place of the 53-bit significand, and \<open>m\<close> the rounded
  significand.
\<close>

definition b64_round :: "nat \<Rightarrow> nat \<Rightarrow> pyfloat" where
  "b64_round a b =
     (if a = 0 then F 0
      else
        let d = int (bit_length a) - int (bit_length b);
            e = (if (if 0 \<le> d then b * 2 ^ nat d \<le> a else b \<le> a * 2 ^ nat (- d))
                 then d else d - 1);
            k = max e (- 1022) - 52;
            x = (if 0 \<le> k then a else a * 2 ^ nat (- k));
            y = (if 0 \<le> k then b * 2 ^ nat k else b);
            q = x div y;
            r = x mod y;
            m = (if y < 2 * r \<or> (2 * r = y \<and> odd q) then q + 1 else q)
        in if 971 < k \<or> (k = 971 \<and> 2 ^ 53 \<le> m) then PosInf
           else F (of_nat m * pow2 k))"

definition dec_to_b64 :: "nat \<Rightarrow> int \<Rightarrow> pyfloat" where
  "dec_to_b64 m e =
     (if 0 \<le> e then b64_round (m * 10 ^ nat e) 1 else b64_round m (10 ^ nat (- e)))"

definition float_neg :: "pyfloat \<Rightarrow> pyfloat" where
  "float_neg x = (case x of F q \<Rightarrow> F (- q) | PosInf \<Rightarrow> NegInf | NegInf \<Rightarrow> PosInf | NaN \<Rightarrow> NaN)"

text \<open>\<open>float(s)\<close> for a string \<open>s\<close>.\<close>

definition py_float :: "string \<Rightarrow> py_exn + pyfloat" where
  "py_float s =
     (let t = strip s;
          body = filter (\<lambda>c. c \<noteq> CHR ''_'') (drop_sign t);
          sgn = (\<lambda>x. if is_negative t then float_neg x else x)
      in if \<not> underscores_ok (CHR 0x00) t then Inl ValueError
         else if py_lower body = ''inf'' \<or> py_lower body = ''infinity'' then Inr (sgn PosInf)
         else if py_lower body = ''nan'' then Inr NaN
         else (case parse_float_number body of
                 None \<Rightarrow> Inl ValueError
               | Some (m, e) \<Rightarrow> Inr (sgn (dec_to_b64 m e))))"

text \<open>\<open>int(x)\<close> for a float \<open>x\<close>: truncation towards zero.\<close>

definition int_of_float :: "pyfloat \<Rightarrow> py_exn + int" where
  "int_of_float x =
     (case x of
        F q \<Rightarrow> Inr (if 0 \<le> q then \<lfloor>q\<rfloor> else - \<lfloor>- q\<rfloor>)
      | PosInf \<Rightarrow> Inl OverflowError
      | NegInf \<Rightarrow> Inl OverflowError
      | NaN \<Rightarrow> Inl ValueError)"

text \<open>\<open>s.replace(",", "")\<close> and its like: every occurrence of one character removed.\<close>

definition remove_char :: "char \<Rightarrow> string \<Rightarrow> string" where
  "remove_char c s = filter (\<lambda>x. x \<noteq> c) s"

section \<open>Documents and records\<close>

text \<open>
  What the PDF extractor hands to the scanners: per page, \<open>extract_text()\<close> (a string
  or \<open>None\<close>) and \<open>extract_tables()\<close> (tables of rows of cells, a cell a string or
  \<open>None\<close>). A document is the list of its pages.
\<close>

type_synonym cell = "string option"
type_synonym table = "cell list list"

record page =
  extract_text :: "string option"
  extract_tables :: "table list"

type_synonym pdf = "page list"

text \<open>The dictionary every scanner appends to its output.\<close>

record line_item =
  quantity :: pynum
  item_number :: string
  sku :: string
  product_description :: string
  unit_price :: "pyfloat option"
  total_amount :: "pyfloat option"

text \<open>\<open>text.split("\n")\<close>.\<close>

fun split_lines :: "string \<Rightarrow> string list" where
  "split_lines [] = [[]]"
| "split_lines (c # cs) =
     (if c = CHR 0x0A then [] # split_lines cs
      else (case split_lines cs of [] \<Rightarrow> [[c]] | l # ls \<Rightarrow> (c # l) # ls))"

text \<open>\<open>sep.join(parts)\<close> with a single space as separator.\<close>

fun join_sp :: "string list \<Rightarrow> string" where
  "join_sp [] = []"
| "join_sp [p] = p"
| "join_sp (p # ps) = p @ '' '' @ join_sp ps"

definition startswith :: "string \<Rightarrow> string \<Rightarrow> bool" where
  "startswith s w = prefix w s"

definition endswith :: "string \<Rightarrow> string \<Rightarrow> bool" where
  "endswith s w = suffix w s"

text \<open>
  Running a per-page scan over the pages of a document, the output list threaded
  through and an exception ending the run.
\<close>

fun over_pages ::
  "(page \<Rightarrow> line_item list \<Rightarrow> py_exn + line_item list) \<Rightarrow> pdf \<Rightarrow> line_item list
     \<Rightarrow> py_exn + line_item list" where
  "over_pages f [] items = Inr items"
| "over_pages f (p # ps) items =
     (case f p items of Inl e \<Rightarrow> Inl e | Inr items' \<Rightarrow> over_pages f ps items')"

section \<open>The Itoya scanner (custom\_parsers.py, \<open>ItoyaParser.parse\<close>)\<close>

definition itoya_item_rx :: regex where
  \<comment> \<open>\<open>^([\d\-]+)\s+(.+?)\s+(?:EACH|BOX|PACK)\s+\d+\s+(\d+)\s+\d+\s+([\d,]+\.\d{2})\s+([\d,]+\.\d{2})\<close>\<close>
  "itoya_item_rx = cat
    [Grp 1 (Rep (\<lambda>c. is_digit c \<or> c = CHR ''-'') 1 None True), rx_ws1,
     Grp 2 rx_lazy_any, rx_ws1,
     Alt (Lit ''EACH'') (Alt (Lit ''BOX'') (Lit ''PACK'')), rx_ws1,
     rx_digits, rx_ws1, Grp 3 rx_digits, rx_ws1, rx_digits, rx_ws1,
     Grp 4 rx_money, rx_ws1, Grp 5 rx_money]"

definition itoya_next_item_rx :: regex where
  \<comment> \<open>\<open>^[\d\-]+\s+\<close>\<close>
  "itoya_next_item_rx =
     cat [Rep (\<lambda>c. is_digit c \<or> c = CHR ''-'') 1 None True, rx_ws1]"

text \<open>
  The description lines gathered after a matched line at index \<open>i\<close>: the parts to
  append and how many lines were taken (0, 1 or 2).
\<close>

definition itoya_continuation :: "string list \<Rightarrow> nat \<Rightarrow> string list \<times> nat" where
  "itoya_continuation lines i =
     (if i + 1 < length lines then
        let next_line = strip (lines ! (i + 1)) in
        if next_line \<noteq> [] \<and> re_match itoya_next_item_rx next_line = None then
          (if i + 2 < length lines then
             let line3 = strip (lines ! (i + 2)) in
             if line3 \<noteq> [] \<and> re_match itoya_next_item_rx line3 = None
                \<and> (startswith line3 ''('' \<or> \<not> endswith next_line '')'')
             then ([next_line, line3], 2)
             else ([next_line], 1)
           else ([next_line], 1))
        else ([], 0)
      else ([], 0))"

text \<open>
  The \<open>while i < len(lines)\<close> loop of one page: \<open>i\<close> the line index, \<open>in_sec\<close> the
  \<open>in_items_section\<close> flag, \<open>items\<close> the output so far.
\<close>

function itoya_scan ::
  "bool \<Rightarrow> string list \<Rightarrow> nat \<Rightarrow> bool \<Rightarrow> line_item list \<Rightarrow> py_exn + line_item list" where
  "itoya_scan include_zero_qty lines i in_sec items =
     (if length lines \<le> i then Inr items
      else
        let line = lines ! i in
        if contains ''Item Description UOM'' line
        then itoya_scan include_zero_qty lines (i + 1) True items
        else if in_sec \<and> (contains ''Subtotal'' line \<or> contains ''Total'' line
                          \<or> contains ''Page:'' line \<or> contains ''Net Invoice'' line)
        then Inr items
        else if in_sec \<and> strip line \<noteq> [] then
          (case re_match itoya_item_rx line of
             None \<Rightarrow> itoya_scan include_zero_qty lines (i + 1) in_sec items
           | Some m \<Rightarrow>
               let more = itoya_continuation lines i;
                   full_description = join_sp (strip (grp_str m 2) # fst more);
                   i' = i + snd more
               in (case py_int (grp_str m 3) of
                     Inl e \<Rightarrow> Inl e
                   | Inr qty \<Rightarrow>
                       if 0 < qty \<or> include_zero_qty then
                         (case py_float (remove_char (CHR '','') (grp_str m 4)) of
                            Inl e \<Rightarrow> Inl e
                          | Inr price \<Rightarrow>
                              (case py_float (remove_char (CHR '','') (grp_str m 5)) of
                                 Inl e \<Rightarrow> Inl e
                               | Inr amount \<Rightarrow>
                                   itoya_scan include_zero_qty lines (i' + 1) in_sec
                                     (items @
                                      [\<lparr>quantity = PyInt qty,
                                        item_number = strip (grp_str m 1),
                                        sku = strip (grp_str m 1),
                                        product_description = full_description,
                                        unit_price = Some price,
                                        total_amount = Some amount\<rparr>])))
                       else itoya_scan include_zero_qty lines (i' + 1) in_sec items))
        else itoya_scan include_zero_qty lines (i + 1) in_sec items)"
  by pat_completeness auto
termination
  by (relation "measure (\<lambda>(z, lines, i, s, items). length lines - i)") auto

declare itoya_scan.simps [simp del]

definition itoya_page :: "bool \<Rightarrow> page \<Rightarrow> line_item list \<Rightarrow> py_exn + line_item list" where
  "itoya_page include_zero_qty p items =
     (case extract_text p of
        None \<Rightarrow> Inr items
      | Some t \<Rightarrow> if t = [] then Inr items
                  else itoya_scan include_zero_qty (split_lines t) 0 False items)"

definition ItoyaParser_parse :: "pdf \<Rightarrow> bool \<Rightarrow> py_exn + line_item list" where
  "ItoyaParser_parse doc include_zero_qty = over_pages (itoya_page include_zero_qty) doc []"

text \<open>The line of the specification's end-to-end example.\<close>

definition itoya_example_line :: string where
  "itoya_example_line =
     ''10-9847-620 KOP - TAMENURI RADEN '' @ [CHR 0x27] @ ''NAMI'' @ [CHR 0x27]
       @ '' LE EACH 2 2 0 1,680.00 3,360.00''"

section \<open>The parser registry and dispatch (custom\_parsers.py, \<open>CUSTOM_PARSERS\<close>,
  \<open>parse_with_custom_parser\<close>)\<close>

datatype parser_class =
    ItoyaParser | LuxuryBrandsParser | RediformParser | TomsStudioParser | ColesParser
  | LamyParser | PilotParser | MontblancParser | LighthouseParser | Retro51Parser
  | TWSBIParser | WriteUSAParser | KenroParser | AvantiParser | PlotterParser | TSLParser
  | ExaclairParser | UniBallParser | AmeicoParser | ChartpakParser | JPTParser
  | WearingeulParser | EliteAccessoriesParser

definition CUSTOM_PARSERS :: "(string \<times> parser_class) list" where
  "CUSTOM_PARSERS =
    [(''itoya'', ItoyaParser),
     (''luxury_brands'', LuxuryBrandsParser),
     (''rediform'', RediformParser),
     (''toms_studio'', TomsStudioParser),
     (''coles'', ColesParser),
     (''lamy'', LamyParser),
     (''pilot'', PilotParser),
     (''montblanc'', MontblancParser),
     (''lighthouse'', LighthouseParser),
     (''retro51'', Retro51Parser),
     (''twsbi'', TWSBIParser),
     (''writeusa'', WriteUSAParser),
     (''kenro'', KenroParser),
     (''avanti'', AvantiParser),
     (''plotter'', PlotterParser),
     (''tsl'', TSLParser),
     (''exaclair'', ExaclairParser),
     (''uniball'', UniBallParser),
     (''ameico'', AmeicoParser),
     (''chartpak'', ChartpakParser),
     (''jpt'', JPTParser),
     (''wearingeul'', WearingeulParser),
     (''elite_accessories'', EliteAccessoriesParser)]"

text \<open>What a registered class's \<open>parse(pdf_path, include_zero_qty)\<close> computes.\<close>

type_synonym scanner = "pdf \<Rightarrow> bool \<Rightarrow> py_exn + line_item list"

text \<open>\<open>pdf.pages[0].extract_text() or ""\<close>, for a document with a page.\<close>

definition first_page_text :: "pdf \<Rightarrow> string" where
  "first_page_text doc =
     (case doc of
        [] \<Rightarrow> []
      | p # ps \<Rightarrow> (case extract_text p of None \<Rightarrow> [] | Some t \<Rightarrow> t))"

text \<open>
  \<open>parse_of cls\<close> stands for the \<open>parse\<close> method of the registered class \<open>cls\<close>; the
  dispatcher only calls it.
\<close>

definition parse_with_custom_parser ::
  "(parser_class \<Rightarrow> scanner) \<Rightarrow> pdf \<Rightarrow> bool \<Rightarrow> py_exn + line_item list" where
  "parse_with_custom_parser parse_of doc include_zero_qty =
     (if doc = [] then Inr []
      else
        let vendor = detect_vendor (first_page_text doc) in
        (case (if vendor \<noteq> [] then map_of CUSTOM_PARSERS vendor else None) of
           Some parser_class \<Rightarrow> parse_of parser_class doc include_zero_qty
         | None \<Rightarrow> Inr []))"

section \<open>The Chartpak scanner (custom\_parsers.py, \<open>ChartpakParser.parse\<close>)\<close>

definition rx_dotnum :: regex where       \<comment> \<open>\<open>[\d.]+\<close>\<close>
  "rx_dotnum = Rep (\<lambda>c. is_digit c \<or> c = CHR ''.'') 1 None True"

definition rx_item_code :: regex where    \<comment> \<open>\<open>[A-Z0-9-]+\<close>\<close>
  "rx_item_code = Rep (\<lambda>c. is_upper c \<or> is_digit c \<or> c = CHR ''-'') 1 None True"

definition chartpak_fmt1_rx :: regex where
  \<comment> \<open>\<open>^(\d+)\s+EA\s+(?:(\d+)\s+)?([A-Z0-9-]+)\s+(.+?)\s+([\d.]+)\s+([\d.]+)\s+([\d.]+)\s+([\d.]+)$\<close>\<close>
  "chartpak_fmt1_rx = cat
    [Grp 1 rx_digits, rx_ws1, Lit ''EA'', rx_ws1,
     Opt (cat [Grp 2 rx_digits, rx_ws1]),
     Grp 3 rx_item_code, rx_ws1, Grp 4 rx_lazy_any, rx_ws1,
     Grp 5 rx_dotnum, rx_ws1, Grp 6 rx_dotnum, rx_ws1,
     Grp 7 rx_dotnum, rx_ws1, Grp 8 rx_dotnum, Eol]"

definition chartpak_fmt2_rx :: regex where
  \<comment> \<open>\<open>^EA\s+(\d+)\s+([A-Z0-9-]+)\s+(.+?)\s+([\d.]+)\s+([\d.]+)\s+([\d.]+)\s+([\d.]+)$\<close>\<close>
  "chartpak_fmt2_rx = cat
    [Lit ''EA'', rx_ws1, Grp 1 rx_digits, rx_ws1,
     Grp 2 rx_item_code, rx_ws1, Grp 3 rx_lazy_any, rx_ws1,
     Grp 4 rx_dotnum, rx_ws1, Grp 5 rx_dotnum, rx_ws1,
     Grp 6 rx_dotnum, rx_ws1, Grp 7 rx_dotnum, Eol]"

text \<open>
  The \<open>for line in lines\<close> loop of one page, \<open>in_items\<close> the section flag. A
  \<open>ValueError\<close> of a \<open>float\<close> conversion is caught and the line skipped; the \<open>int\<close>
  conversions stand outside the \<open>try\<close>.
\<close>

fun chartpak_lines ::
  "bool \<Rightarrow> string list \<Rightarrow> bool \<Rightarrow> line_item list \<Rightarrow> py_exn + line_item list" where
  "chartpak_lines include_zero_qty [] in_items items = Inr items"
| "chartpak_lines include_zero_qty (line # rest) in_items items =
     (if contains ''SHIPPED'' line \<and> contains ''UNIT'' line \<and> contains ''CATALOG'' line
      then chartpak_lines include_zero_qty rest True items
      else if contains ''SUB-TOTAL'' line \<or> contains ''TOTAL'' line
      then chartpak_lines include_zero_qty rest False items
      else if in_items \<and> strip line \<noteq> [] then
        (case re_match chartpak_fmt1_rx (strip line) of
           Some m \<Rightarrow>
             (case py_int (grp_str m 1) of
                Inl e \<Rightarrow> Inl e
              | Inr shipped_qty \<Rightarrow>
                  (case (if grp_str m 2 \<noteq> [] then py_int (grp_str m 2) else Inr 0) of
                     Inl e \<Rightarrow> Inl e
                   | Inr backorder_qty \<Rightarrow>
                       if shipped_qty = 0 \<and> \<not> include_zero_qty
                       then chartpak_lines include_zero_qty rest in_items items
                       else
                         (case py_float (grp_str m 7) of
                            Inl e \<Rightarrow> chartpak_lines include_zero_qty rest in_items items
                          | Inr net_price \<Rightarrow>
                              (case py_float (grp_str m 8) of
                                 Inl e \<Rightarrow> chartpak_lines include_zero_qty rest in_items items
                               | Inr amount \<Rightarrow>
                                   chartpak_lines include_zero_qty rest in_items
                                     (items @
                                      [\<lparr>quantity = PyInt shipped_qty,
                                        item_number = grp_str m 3,
                                        sku = grp_str m 3,
                                        product_description = strip (grp_str m 4),
                                        unit_price = Some net_price,
                                        total_amount = Some amount\<rparr>])))))
         | None \<Rightarrow>
             (case re_match chartpak_fmt2_rx (strip line) of
                Some m \<Rightarrow>
                  (case py_int (grp_str m 1) of
                     Inl e \<Rightarrow> Inl e
                   | Inr backorder_qty \<Rightarrow>
                       (case py_float (grp_str m 6) of
                          Inl e \<Rightarrow> chartpak_lines include_zero_qty rest in_items items
                        | Inr net_price \<Rightarrow>
                            chartpak_lines include_zero_qty rest in_items
                              (items @
                               [\<lparr>quantity = PyInt 0,
                                 item_number = grp_str m 2,
                                 sku = grp_str m 2,
                                 product_description = strip (grp_str m 3),
                                 unit_price = Some net_price,
                                 total_amount = Some (F 0)\<rparr>])))
              | None \<Rightarrow> chartpak_lines include_zero_qty rest in_items items))
      else chartpak_lines include_zero_qty rest in_items items)"

definition chartpak_page :: "bool \<Rightarrow> page \<Rightarrow> line_item list \<Rightarrow> py_exn + line_item list" where
  "chartpak_page include_zero_qty p items =
     (case extract_text p of
        None \<Rightarrow> Inr items
      | Some t \<Rightarrow> if t = [] then Inr items
                  else chartpak_lines include_zero_qty (split_lines t) False items)"

definition ChartpakParser_parse :: "pdf \<Rightarrow> bool \<Rightarrow> py_exn + line_item list" where
  "ChartpakParser_parse doc include_zero_qty = over_pages (chartpak_page include_zero_qty) doc []"

text \<open>
  Two pages for the zero-quantity gate: after the header, a line in the backorder-only
  format (the docstring's own example), and a line in the first format with 0 shipped.
\<close>

definition chartpak_header :: string where
  "chartpak_header = ''SHIPPED UNIT B/O CATALOG NO. DESCRIPTION LIST DISCOUNT NET AMOUNT''"

definition chartpak_backorder_page :: page where
  "chartpak_backorder_page =
     \<lparr>extract_text = Some (chartpak_header @ [CHR 0x0A]
                             @ ''EA 2 N868-51 A6 5MM GRE 32.000 .550 14.400 .00''),
      extract_tables = []\<rparr>"

definition chartpak_zero_shipped_page :: page where
  "chartpak_zero_shipped_page =
     \<lparr>extract_text = Some (chartpak_header @ [CHR 0x0A]
                             @ ''0 EA 2 N868-51 A6 5MM GRE 32.000 .550 14.400 .00''),
      extract_tables = []\<rparr>"

section \<open>The Montblanc scanner (custom\_parsers.py, \<open>MontblancParser.parse\<close>)\<close>

definition rx_article :: regex where      \<comment> \<open>\<open>\d{5,}\<close>\<close>
  "rx_article = Rep is_digit 5 None True"

definition rx_page_colon :: regex where   \<comment> \<open>\<open>Page\s*:\<close>\<close>
  "rx_page_colon = cat [Lit ''Page'', rx_ws0, Lit '':'']"

definition montblanc_footer_rx :: regex where
  \<comment> \<open>\<open>^(SUBTOTAL|Freight|TOTAL|Net Weight|Montblanc|Page\s*:)\<close>\<close>
  "montblanc_footer_rx =
     Grp 1 (Alt (Lit ''SUBTOTAL'') (Alt (Lit ''Freight'') (Alt (Lit ''TOTAL'')
              (Alt (Lit ''Net Weight'') (Alt (Lit ''Montblanc'') rx_page_colon)))))"

definition montblanc_a_rx :: regex where
  \<comment> \<open>\<open>^(\d{5,})\s+(.+?)\s+(\d+)\s+PC\s+([\d,]+\.\d{2})\s+([\d,]+\.\d{2})\s+([\d,]+\.\d{2})$\<close>\<close>
  "montblanc_a_rx = cat
    [Grp 1 rx_article, rx_ws1, Grp 2 rx_lazy_any, rx_ws1, Grp 3 rx_digits, rx_ws1,
     Lit ''PC'', rx_ws1, Grp 4 rx_money, rx_ws1, Grp 5 rx_money, rx_ws1, Grp 6 rx_money, Eol]"

definition montblanc_b_rx :: regex where
  \<comment> \<open>\<open>^(\d{5,})\s+(\d+)\s+PC\s+([\d,]+\.\d{2})\s+([\d,]+\.\d{2})\s+([\d,]+\.\d{2})$\<close>\<close>
  "montblanc_b_rx = cat
    [Grp 1 rx_article, rx_ws1, Grp 2 rx_digits, rx_ws1,
     Lit ''PC'', rx_ws1, Grp 3 rx_money, rx_ws1, Grp 4 rx_money, rx_ws1, Grp 5 rx_money, Eol]"

definition montblanc_stop_rx :: regex where
  \<comment> \<open>\<open>^(\d{5,}|SUBTOTAL|DELIVERY:|Page\s*:)\<close>\<close>
  "montblanc_stop_rx =
     Grp 1 (Alt rx_article (Alt (Lit ''SUBTOTAL'') (Alt (Lit ''DELIVERY:'') rx_page_colon)))"

definition montblanc_meta_rx :: regex where
  \<comment> \<open>\<open>^(Customer PO:|SO:|Tracking|Gold Unit)\<close>\<close>
  "montblanc_meta_rx =
     Grp 1 (Alt (Lit ''Customer PO:'') (Alt (Lit ''SO:'') (Alt (Lit ''Tracking'')
              (Lit ''Gold Unit''))))"

text \<open>
  The inner \<open>while\<close> loop that follows a matched line, run on the lines from the
  next index on: the stripped lines it keeps and the number of lines it passes
  before it stops (at another item, a footer, or the end of the page).
\<close>

fun montblanc_collect :: "string list \<Rightarrow> string list \<times> nat" where
  "montblanc_collect [] = ([], 0)"
| "montblanc_collect (l # ls) =
     (let next_line = strip l in
      if re_match montblanc_stop_rx next_line \<noteq> None then ([], 0)
      else
        let more = montblanc_collect ls in
        ((if next_line \<noteq> [] \<and> re_match montblanc_meta_rx next_line = None
          then [next_line] else []) @ fst more,
         Suc (snd more)))"

text \<open>
  The outer \<open>while i < len(lines)\<close> loop of one page. Both branches convert inside a
  \<open>try\<close> whose \<open>except ValueError\<close> moves one line on; in the second branch the
  index has by then passed the gathered lines.
\<close>

function montblanc_scan ::
  "bool \<Rightarrow> string list \<Rightarrow> nat \<Rightarrow> bool \<Rightarrow> line_item list \<Rightarrow> line_item list" where
  "montblanc_scan include_zero_qty lines i in_items items =
     (if length lines \<le> i then items
      else
        let line = lines ! i in
        if contains ''Article'' line \<and> contains ''Description'' line \<and> contains ''QTY'' line
        then montblanc_scan include_zero_qty lines (i + 1) True items
        else if \<not> in_items
        then montblanc_scan include_zero_qty lines (i + 1) in_items items
        else if re_match montblanc_footer_rx (strip line) \<noteq> None
        then montblanc_scan include_zero_qty lines (i + 1) in_items items
        else
          (case re_match montblanc_a_rx (strip line) of
             Some m \<Rightarrow>
               (case py_int (grp_str m 3) of
                  Inl e \<Rightarrow> montblanc_scan include_zero_qty lines (i + 1) in_items items
                | Inr qty \<Rightarrow>
                    if qty = 0 \<and> \<not> include_zero_qty
                    then montblanc_scan include_zero_qty lines (i + 1) in_items items
                    else
                      (case py_float (remove_char (CHR '','') (grp_str m 5)) of
                         Inl e \<Rightarrow> montblanc_scan include_zero_qty lines (i + 1) in_items items
                       | Inr price \<Rightarrow>
                           (case py_float (remove_char (CHR '','') (grp_str m 6)) of
                              Inl e \<Rightarrow>
                                montblanc_scan include_zero_qty lines (i + 1) in_items items
                            | Inr total_v \<Rightarrow>
                                let more = montblanc_collect (drop (i + 1) lines) in
                                montblanc_scan include_zero_qty lines (i + 1 + snd more) in_items
                                  (items @
                                   [\<lparr>quantity = PyInt qty,
                                     item_number = grp_str m 1,
                                     sku = grp_str m 1,
                                     product_description =
                                       strip (grp_str m 2)
                                         @ concat (map (\<lambda>l. '' '' @ l) (fst more)),
                                     unit_price = Some price,
                                     total_amount = Some total_v\<rparr>]))))
           | None \<Rightarrow>
               (case re_match montblanc_b_rx (strip line) of
                  Some m \<Rightarrow>
                    (case py_int (grp_str m 2) of
                       Inl e \<Rightarrow> montblanc_scan include_zero_qty lines (i + 1) in_items items
                     | Inr qty \<Rightarrow>
                         if qty = 0 \<and> \<not> include_zero_qty
                         then montblanc_scan include_zero_qty lines (i + 1) in_items items
                         else
                           let more = montblanc_collect (drop (i + 1) lines);
                               j = i + 1 + snd more
                           in
                           (case py_float (remove_char (CHR '','') (grp_str m 4)) of
                              Inl e \<Rightarrow>
                                montblanc_scan include_zero_qty lines (j + 1) in_items items
                            | Inr price \<Rightarrow>
                                (case py_float (remove_char (CHR '','') (grp_str m 5)) of
                                   Inl e \<Rightarrow>
                                     montblanc_scan include_zero_qty lines (j + 1) in_items items
                                 | Inr total_v \<Rightarrow>
                                     montblanc_scan include_zero_qty lines j in_items
                                       (items @
                                        [\<lparr>quantity = PyInt qty,
                                          item_number = grp_str m 1,
                                          sku = grp_str m 1,
                                          product_description = join_sp (fst more),
                                          unit_price = Some price,
                                          total_amount = Some total_v\<rparr>]))))
                | None \<Rightarrow> montblanc_scan include_zero_qty lines (i + 1) in_items items)))"
  by pat_completeness auto
termination
  by (relation "measure (\<lambda>(z, lines, i, s, items). length lines - i)") auto

declare montblanc_scan.simps [simp del]

definition montblanc_page :: "bool \<Rightarrow> page \<Rightarrow> line_item list \<Rightarrow> py_exn + line_item list" where
  "montblanc_page include_zero_qty p items =
     (case extract_text p of
        None \<Rightarrow> Inr items
      | Some t \<Rightarrow> if t = [] then Inr items
                  else Inr (montblanc_scan include_zero_qty (split_lines t) 0 False items))"

definition MontblancParser_parse :: "pdf \<Rightarrow> bool \<Rightarrow> py_exn + line_item list" where
  "MontblancParser_parse doc include_zero_qty =
     over_pages (montblanc_page include_zero_qty) doc []"

text \<open>
  A page whose last line is a data line of the second format, and one on which the
  description follows it.
\<close>

definition montblanc_header :: string where
  "montblanc_header = ''Article Description QTY UOM RSP Unit Price Total''"

definition montblanc_bare_page :: page where
  "montblanc_bare_page =
     \<lparr>extract_text = Some (montblanc_header @ [CHR 0x0A]
                             @ ''118848 1 PC 1,015.00 507.50 507.50''),
      extract_tables = []\<rparr>"

definition montblanc_described_page :: page where
  "montblanc_described_page =
     \<lparr>extract_text = Some (montblanc_header @ [CHR 0x0A]
                             @ ''118848 1 PC 1,015.00 507.50 507.50'' @ [CHR 0x0A]
                             @ ''MST Classique Platinum BP''),
      extract_tables = []\<rparr>"

section \<open>Python's \<open>decimal.Decimal\<close> in the default context\<close>















section \<open>The Exaclair scanner (custom\_parsers.py, \<open>ExaclairParser.parse\<close>)\<close>











text \<open>
  A page on which the retail price has 30 significant digits, just under half a cent.
\<close>

definition exaclair_header :: string where
  "exaclair_header = ''Ordered Shipped B. Order Item Number Description Price Disc% Total''"


definition exaclair_example_page :: page where
  "exaclair_example_page =
     \<lparr>extract_text = Some (exaclair_header @ [CHR 0x0A]
          @ ''10 10 0 68145C CLASSIC NBK WB R/MAR 50S 8X11 10.45 50.00 52.25''),
      extract_tables = []\<rparr>"

section \<open>The generic table parser (parse.py)\<close>

subsection \<open>\<open>decode_cid_references\<close>\<close>

text \<open>
  The code-to-character table. The entry for 192 is the two-character string of the
  source file, here as its UTF-8 bytes.
\<close>

definition cid_map :: "(string \<times> string) list" where
  "cid_map =
    [(''34'', [CHR 0x22]), (''35'', ''#''), (''43'', ''+''), (''44'', '',''),
     (''45'', ''-''), (''47'', ''/''), (''48'', ''0''), (''49'', ''1''), (''50'', ''2''),
     (''51'', ''3''), (''52'', ''4''), (''53'', ''5''), (''54'', ''6''), (''55'', ''7''),
     (''56'', ''8''), (''57'', ''9''), (''58'', '':''), (''65'', ''A''), (''66'', ''B''),
     (''67'', ''C''), (''68'', ''D''), (''69'', ''E''), (''70'', ''F''), (''71'', ''G''),
     (''72'', ''H''), (''73'', ''I''), (''74'', ''J''), (''75'', ''K''), (''76'', ''L''),
     (''77'', ''M''), (''78'', ''N''), (''79'', ''O''), (''80'', ''P''), (''81'', ''Q''),
     (''82'', ''R''), (''83'', ''S''), (''84'', ''T''), (''85'', ''U''), (''86'', ''V''),
     (''87'', ''W''), (''88'', ''X''), (''89'', ''Y''), (''90'', ''Z''), (''97'', ''a''),
     (''98'', ''b''), (''99'', ''c''), (''100'', ''d''), (''101'', ''e''),
     (''102'', ''f''), (''103'', ''g''), (''104'', ''h''), (''105'', ''i''),
     (''106'', ''j''), (''107'', ''k''), (''108'', ''l''), (''109'', ''m''),
     (''110'', ''n''), (''111'', ''o''), (''112'', ''p''), (''113'', ''q''),
     (''114'', ''r''), (''115'', ''s''), (''116'', ''t''), (''117'', ''u''),
     (''118'', ''v''), (''119'', ''w''), (''120'', ''x''), (''121'', ''y''),
     (''122'', ''z''), (''192'', [CHR 0xC3, CHR 0x83, CHR 0xE2, CHR 0x82, CHR 0xAC])]"

text \<open>
  \<open>re.sub(r"\(cid:(\d+)\)", replace_cid, text)\<close>: every marker, scanning from the left,
  is replaced by its table entry, or kept when the table has none.
\<close>

function decode_cid_sub :: "string \<Rightarrow> string" where
  "decode_cid_sub [] = []"
| "decode_cid_sub (c # cs) =
     (let ds = takeWhile is_digit (drop 4 cs);
          after = dropWhile is_digit (drop 4 cs)
      in if prefix ''(cid:'' (c # cs) \<and> ds \<noteq> [] \<and> prefix '')'' after
         then (case map_of cid_map ds of
                 Some r \<Rightarrow> r
               | None \<Rightarrow> ''(cid:'' @ ds @ '')'') @ decode_cid_sub (tl after)
         else c # decode_cid_sub cs)"
  by pat_completeness auto
termination
proof (relation "measure length")
  show "wf (measure length)" by simp
next
  fix c :: char and cs ds after :: string
  assume "after = dropWhile is_digit (drop 4 cs)"
  then have "length after \<le> length cs"
    using length_dropWhile_le [of is_digit "drop 4 cs"] by simp
  then show "(tl after, c # cs) \<in> measure length" by simp
next
  fix c :: char and cs :: string
  show "(cs, c # cs) \<in> measure length" by simp
qed

declare decode_cid_sub.simps [simp del]

definition decode_cid_references :: "string \<Rightarrow> string" where
  "decode_cid_references t =
     (if t = [] \<or> \<not> contains ''(cid:'' t then t else decode_cid_sub t)"

subsection \<open>Field clean-up\<close>

text \<open>\<open>s.split()\<close>: the maximal runs of non-space characters (\<open>cur\<close> is the run being read).\<close>

fun split_ws :: "string \<Rightarrow> string \<Rightarrow> string list" where
  "split_ws [] cur = (if cur = [] then [] else [cur])"
| "split_ws (c # cs) cur =
     (if is_space c then (if cur = [] then split_ws cs [] else cur # split_ws cs [])
      else split_ws cs (cur @ [c]))"

text \<open>\<open>" ".join(s.split())\<close>.\<close>

definition normalize_ws :: "string \<Rightarrow> string" where
  "normalize_ws s = join_sp (split_ws s [])"

definition extract_first_item_number :: "string \<Rightarrow> string" where
  "extract_first_item_number item_num =
     (if CHR ''/'' \<in> set item_num then strip (takeWhile (\<lambda>c. c \<noteq> CHR ''/'') item_num)
      else item_num)"

text \<open>A cell that is truthy in Python: a non-empty string.\<close>

definition truthy :: "cell \<Rightarrow> string option" where
  "truthy c = (case c of None \<Rightarrow> None | Some s \<Rightarrow> if s = [] then None else Some s)"

subsection \<open>Header detection (\<open>_is_line_items_table\<close> and the search in \<open>_extract_table_based\<close>)\<close>

definition line_item_indicators :: "string list" where
  "line_item_indicators =
     [''qty'', ''quantity'', ''item'', ''sku'', ''product'', ''price'', ''amount'', ''total'']"

definition header_texts :: "cell list \<Rightarrow> string list" where
  "header_texts header_row =
     map (\<lambda>h. case truthy h of None \<Rightarrow> [] | Some s \<Rightarrow> py_lower s) header_row"

definition indicator_present :: "cell list \<Rightarrow> string \<Rightarrow> bool" where
  "indicator_present header_row indicator =
     list_ex (contains indicator) (header_texts header_row)"

definition is_line_items_table :: "cell list \<Rightarrow> bool" where
  "is_line_items_table header_row =
     (header_row \<noteq> []
      \<and> 3 \<le> length (filter (indicator_present header_row) line_item_indicators))"

text \<open>The first element from index \<open>i\<close> on that satisfies \<open>p\<close>, with its index.\<close>

fun find_first :: "('a \<Rightarrow> bool) \<Rightarrow> 'a list \<Rightarrow> nat \<Rightarrow> (nat \<times> 'a) option" where
  "find_first p [] i = None"
| "find_first p (x # xs) i = (if p x then Some (i, x) else find_first p xs (Suc i))"

definition find_header :: "table \<Rightarrow> (nat \<times> cell list) option" where
  "find_header t = find_first is_line_items_table (take 5 t) 0"

subsection \<open>A row under a header (\<open>_parse_line_item_row\<close>)\<close>

text \<open>
  \<open>row_dict\<close> as the list of its assignments, the latest first, so that \<open>map_of\<close> finds
  the value a key has in the dictionary.
\<close>

definition row_dict_of :: "cell list \<Rightarrow> cell list \<Rightarrow> (string \<times> cell) list" where
  "row_dict_of headers row =
     rev (concat (map (\<lambda>(h, v). case truthy h of
                                    None \<Rightarrow> []
                                  | Some hs \<Rightarrow> [(strip (py_lower hs), v)])
                      (zip headers row)))"

text \<open>\<open>key in row_dict and row_dict[key]\<close>, giving the value.\<close>

definition dict_value :: "(string \<times> cell) list \<Rightarrow> string \<Rightarrow> string option" where
  "dict_value row_dict k = (case map_of row_dict k of None \<Rightarrow> None | Some c \<Rightarrow> truthy c)"

text \<open>
  \<open>int(float(s))\<close> under \<open>except ValueError\<close>: \<open>Inr None\<close> when the \<open>ValueError\<close> is
  caught, \<open>Inl\<close> for the \<open>OverflowError\<close> of an infinite value, which is not.
\<close>

definition int_float_caught :: "string \<Rightarrow> py_exn + int option" where
  "int_float_caught s =
     (case py_float s of
        Inl e \<Rightarrow> Inr None
      | Inr x \<Rightarrow>
          (case int_of_float x of
             Inr n \<Rightarrow> Inr (Some n)
           | Inl e \<Rightarrow> if e = ValueError then Inr None else Inl e))"

fun extract_quantity_keys :: "(string \<times> cell) list \<Rightarrow> string list \<Rightarrow> py_exn + int option" where
  "extract_quantity_keys row_dict [] = Inr None"
| "extract_quantity_keys row_dict (k # ks) =
     (case dict_value row_dict k of
        None \<Rightarrow> extract_quantity_keys row_dict ks
      | Some v \<Rightarrow>
          if strip v = [] then extract_quantity_keys row_dict ks
          else (case int_float_caught (strip v) of
                  Inl e \<Rightarrow> Inl e
                | Inr None \<Rightarrow> extract_quantity_keys row_dict ks
                | Inr (Some n) \<Rightarrow> Inr (Some n)))"

definition extract_quantity :: "(string \<times> cell) list \<Rightarrow> py_exn + int option" where
  "extract_quantity row_dict =
     extract_quantity_keys row_dict [''qty'', ''quantity'', ''qnty'', ''shipped'', ''ordered'']"

fun extract_field :: "(string \<times> cell) list \<Rightarrow> string list \<Rightarrow> string option" where
  "extract_field row_dict [] = None"
| "extract_field row_dict (k # ks) =
     (case dict_value row_dict k of
        None \<Rightarrow> extract_field row_dict ks
      | Some v \<Rightarrow>
          let w = normalize_ws (decode_cid_references (strip v)) in
          if w \<noteq> [] \<and> py_lower w \<noteq> ''none'' \<and> py_lower w \<noteq> ''null''
          then Some w
          else extract_field row_dict ks)"

fun extract_price :: "(string \<times> cell) list \<Rightarrow> string list \<Rightarrow> pyfloat option" where
  "extract_price row_dict [] = None"
| "extract_price row_dict (k # ks) =
     (case dict_value row_dict k of
        None \<Rightarrow> extract_price row_dict ks
      | Some v \<Rightarrow>
          let w = remove_char (CHR '','')
                    (remove_char (CHR ''$'') (strip (decode_cid_references v))) in
          if w = [] then extract_price row_dict ks
          else (case py_float w of
                  Inl e \<Rightarrow> extract_price row_dict ks
                | Inr x \<Rightarrow> Some x))"

text \<open>
  \<open>include_zero\<close> is the module constant \<open>INCLUDE_ZERO_QUANTITY\<close> (\<open>True\<close> in the
  source, documented as the switch that removes zero-quantity rows).
\<close>

definition parse_line_item_row ::
  "bool \<Rightarrow> cell list \<Rightarrow> cell list \<Rightarrow> py_exn + line_item option" where
  "parse_line_item_row include_zero row headers =
     (if length row < 4 then Inr None
      else
        let row_dict = row_dict_of headers row in
        (case extract_quantity row_dict of
           Inl e \<Rightarrow> Inl e
         | Inr None \<Rightarrow> Inr None
         | Inr (Some qty) \<Rightarrow>
             if \<not> include_zero \<and> qty = 0 then Inr None
             else
               let found = extract_field row_dict
                     [''item#'', ''item #'', ''item'', ''item_number'', ''itemnumber'',
                      ''item no'', ''item no.''];
                   sku0 = extract_field row_dict [''sku'', ''item_code'', ''item code''];
                   product = extract_field row_dict
                     [''product'', ''description'', ''item_description'', ''item description''];
                   price = extract_price row_dict
                     [''price'', ''unit_price'', ''unit price'', ''price each''];
                   amount = extract_price row_dict
                     [''amount'', ''total'', ''total_amount'', ''line_total''];
                   item0 = (case found of
                              None \<Rightarrow> []
                            | Some s \<Rightarrow> extract_first_item_number s);
                   sku1 = (case sku0 of None \<Rightarrow> [] | Some s \<Rightarrow> s);
                   item_num = (if item0 = [] \<and> sku1 \<noteq> [] then sku1 else item0);
                   sku2 = (if item0 = [] \<and> sku1 \<noteq> [] then sku1
                           else if sku1 = [] \<and> item0 \<noteq> [] then item0 else sku1)
               in (case product of
                     None \<Rightarrow> Inr None
                   | Some description \<Rightarrow>
                       if item_num = [] \<or> sku2 = [] then Inr None
                       else Inr (Some \<lparr>quantity = PyInt qty,
                                        item_number = item_num,
                                        sku = sku2,
                                        product_description = description,
                                        unit_price = price,
                                        total_amount = amount\<rparr>))))"

subsection \<open>A row of a table without header (\<open>_parse_continuation_row\<close>)\<close>

text \<open>\<open>cell and str(cell).strip()\<close>: the cell holds something other than white space.\<close>

definition nonblank :: "cell \<Rightarrow> bool" where
  "nonblank c = (case truthy c of None \<Rightarrow> False | Some s \<Rightarrow> strip s \<noteq> [])"

text \<open>
  The two index searches and the slice \<open>row[start_idx:end_idx]\<close>; the indices keep
  their initial values \<open>0\<close> and \<open>len(row)\<close> when no cell is non-blank.
\<close>

definition start_idx :: "cell list \<Rightarrow> nat" where
  "start_idx row =
     (if list_ex nonblank row then length (takeWhile (\<lambda>c. \<not> nonblank c) row) else 0)"

definition end_idx :: "cell list \<Rightarrow> nat" where
  "end_idx row =
     (if list_ex nonblank row
      then length row - length (takeWhile (\<lambda>c. \<not> nonblank c) (rev row))
      else length row)"

definition trimmed_row :: "cell list \<Rightarrow> cell list" where
  "trimmed_row row = take (end_idx row - start_idx row) (drop (start_idx row) row)"

text \<open>The clean-up of the three text fields, and of the two price fields.\<close>

definition clean_cell :: "cell \<Rightarrow> string option" where
  "clean_cell c =
     (case truthy c of
        None \<Rightarrow> None
      | Some s \<Rightarrow> Some (normalize_ws (decode_cid_references s)))"

definition price_cell :: "cell \<Rightarrow> pyfloat option" where
  "price_cell c =
     (case truthy c of
        None \<Rightarrow> None
      | Some s \<Rightarrow>
          (case py_float (strip (remove_char (CHR '','')
                  (remove_char (CHR ''$'') (decode_cid_references s)))) of
             Inl e \<Rightarrow> None
           | Inr x \<Rightarrow> Some x))"

text \<open>The positional mapping of a trimmed row of at least five cells.\<close>

definition parse_positional :: "bool \<Rightarrow> cell list \<Rightarrow> py_exn + line_item option" where
  "parse_positional include_zero tr =
     (case truthy (tr ! 0) of
        None \<Rightarrow> Inr None
      | Some qty_str \<Rightarrow>
          (case int_float_caught (strip qty_str) of
             Inl e \<Rightarrow> Inl e
           | Inr None \<Rightarrow> Inr None
           | Inr (Some qty) \<Rightarrow>
               if \<not> include_zero \<and> qty = 0 then Inr None
               else
                 let item_num = map_option extract_first_item_number (clean_cell (tr ! 1));
                     sku_v = clean_cell (tr ! 2);
                     description = clean_cell (tr ! 3);
                     price = price_cell (tr ! 4);
                     amount = (if 5 < length tr then price_cell (tr ! 5) else None)
                 in (case (item_num, sku_v, description) of
                       (Some i, Some s, Some d) \<Rightarrow>
                         if i = [] \<or> s = [] \<or> d = [] then Inr None
                         else Inr (Some \<lparr>quantity = PyInt qty,
                                          item_number = i,
                                          sku = s,
                                          product_description = d,
                                          unit_price = price,
                                          total_amount = amount\<rparr>)
                     | _ \<Rightarrow> Inr None)))"

definition parse_continuation_row ::
  "bool \<Rightarrow> cell list \<Rightarrow> cell list \<Rightarrow> py_exn + line_item option" where
  "parse_continuation_row include_zero row header =
     (if row = [] then Inr None
      else if length row = length header then parse_line_item_row include_zero row header
      else if 5 \<le> length (trimmed_row row) then parse_positional include_zero (trimmed_row row)
      else Inr None)"

subsection \<open>The loop over pages and tables (\<open>_extract_table_based\<close>)\<close>

text \<open>
  Appending what a row parser returns for each row in turn; an exception ends the run.
\<close>

fun collect_rows ::
  "(cell list \<Rightarrow> py_exn + line_item option) \<Rightarrow> cell list list \<Rightarrow> line_item list
     \<Rightarrow> py_exn + line_item list" where
  "collect_rows f [] items = Inr items"
| "collect_rows f (row # rows) items =
     (case f row of
        Inl e \<Rightarrow> Inl e
      | Inr None \<Rightarrow> collect_rows f rows items
      | Inr (Some item) \<Rightarrow> collect_rows f rows (items @ [item]))"

text \<open>
  One table, given the header remembered so far: the header to remember afterwards
  and the output. A table with a header row among its first five rows is parsed
  under it; any other table is parsed under the remembered header, if there is one,
  row by row, rows with no non-empty cell left out.
\<close>

definition process_table ::
  "bool \<Rightarrow> cell list option \<Rightarrow> table \<Rightarrow> line_item list
     \<Rightarrow> py_exn + (cell list option \<times> line_item list)" where
  "process_table include_zero last_header t items =
     (if t = [] then Inr (last_header, items)
      else
        (case find_header t of
           Some (idx, header_row) \<Rightarrow>
             (case collect_rows (\<lambda>row. parse_line_item_row include_zero row header_row)
                     (drop (idx + 1) t) items of
                Inl e \<Rightarrow> Inl e
              | Inr items' \<Rightarrow> Inr (Some header_row, items'))
         | None \<Rightarrow>
             (case last_header of
                None \<Rightarrow> Inr (last_header, items)
              | Some h \<Rightarrow>
                  if h = [] then Inr (last_header, items)
                  else
                    (case collect_rows (\<lambda>row. parse_continuation_row include_zero row h)
                            (filter (\<lambda>row. list_ex (\<lambda>c. truthy c \<noteq> None) row) t) items of
                       Inl e \<Rightarrow> Inl e
                     | Inr items' \<Rightarrow> Inr (last_header, items')))))"

fun process_tables ::
  "bool \<Rightarrow> cell list option \<Rightarrow> table list \<Rightarrow> line_item list
     \<Rightarrow> py_exn + (cell list option \<times> line_item list)" where
  "process_tables include_zero last_header [] items = Inr (last_header, items)"
| "process_tables include_zero last_header (t # ts) items =
     (case process_table include_zero last_header t items of
        Inl e \<Rightarrow> Inl e
      | Inr (h, items') \<Rightarrow> process_tables include_zero h ts items')"

fun process_pages ::
  "bool \<Rightarrow> cell list option \<Rightarrow> pdf \<Rightarrow> line_item list
     \<Rightarrow> py_exn + (cell list option \<times> line_item list)" where
  "process_pages include_zero last_header [] items = Inr (last_header, items)"
| "process_pages include_zero last_header (p # ps) items =
     (case process_tables include_zero last_header (extract_tables p) items of
        Inl e \<Rightarrow> Inl e
      | Inr (h, items') \<Rightarrow> process_pages include_zero h ps items')"

definition extract_table_based :: "bool \<Rightarrow> pdf \<Rightarrow> py_exn + line_item list" where
  "extract_table_based include_zero doc =
     (case process_pages include_zero None doc [] of
        Inl e \<Rightarrow> Inl e
      | Inr (h, items) \<Rightarrow> Inr items)"

subsection \<open>The specification's wording, for comparison\<close>

text \<open>The seven indicator terms the specification lists.\<close>

definition spec_indicators :: "string list" where
  "spec_indicators =
     [''quantity'', ''item'', ''sku'', ''product'', ''price'', ''amount'', ''total'']"

text \<open>
  A term occurs in a row when it is a substring of the lower-cased text of some cell.
\<close>

definition occurs_in_row :: "cell list \<Rightarrow> string \<Rightarrow> bool" where
  "occurs_in_row row term_v = list_ex (\<lambda>c. case c of None \<Rightarrow> False
                                              | Some s \<Rightarrow> contains term_v (py_lower s)) row"

text \<open>A row with its leading and trailing blank cells removed.\<close>

definition trim_blank :: "cell list \<Rightarrow> cell list" where
  "trim_blank row =
     rev (dropWhile (\<lambda>c. \<not> nonblank c) (rev (dropWhile (\<lambda>c. \<not> nonblank c) row)))"

text \<open>The header row and the data row of the specification's example table.\<close>

definition example_header :: "cell list" where
  "example_header =
     [Some ''Qty'', Some ''Item#'', Some ''SKU'', Some ''Description'', Some ''Price'',
      Some ''Amount'']"

definition example_row :: "cell list" where
  "example_row =
     [Some ''3'', Some ''ABC1'', Some ''ABC1'', Some ''Widget'', Some ''10.00'', Some ''30.00'']"

text \<open>
  The header a run of tables leaves remembered: that of the last table in which one
  was detected, or the one remembered before.
\<close>

definition last_header_of :: "cell list option \<Rightarrow> table list \<Rightarrow> cell list option" where
  "last_header_of h0 ts =
     foldl (\<lambda>h t. case find_header t of None \<Rightarrow> h | Some (idx, row) \<Rightarrow> Some row) h0 ts"

text \<open>A two-page document: a table with the example header, then a table without.\<close>

definition continuation_row_ex :: "cell list" where
  "continuation_row_ex =
     [None, Some '' '', Some ''2'', Some ''A1/B2'', Some ''S1'', Some ''Fine  pen'',
      Some ''$1.50'', Some ''3.00'', Some '''', None]"

definition two_page_doc :: pdf where
  "two_page_doc =
     [\<lparr>extract_text = None, extract_tables = [[example_header, example_row]]\<rparr>,
      \<lparr>extract_text = None,
        extract_tables = [[continuation_row_ex, [Some ''7'', Some ''X'', None, None]]]\<rparr>]"

section \<open>The Avanti scanner (custom\_parsers.py, \<open>AvantiParser.parse\<close>)\<close>

definition rx_decimal_point :: regex where   \<comment> \<open>\<open>\d+\.\d+\<close>\<close>
  "rx_decimal_point = cat [rx_digits, Lit ''.'', rx_digits]"

definition avanti_rx :: regex where
  \<comment> \<open>\<open>^#(\d+)\s+(\S+)\s+(.+?)\s+(\d+\.\d+)\s+(\d+\.\d+)\s+(\d+\.\d+)$\<close>\<close>
  "avanti_rx = cat
    [Lit ''#'', Grp 1 rx_digits, rx_ws1, Grp 2 rx_nonspace, rx_ws1, Grp 3 rx_lazy_any, rx_ws1,
     Grp 4 rx_decimal_point, rx_ws1, Grp 5 rx_decimal_point, rx_ws1, Grp 6 rx_decimal_point,
     Eol]"

text \<open>
  \<open>int(qty) if qty == int(qty) else qty\<close> for a float \<open>qty\<close>; \<open>int\<close> raises on an
  infinity or a NaN.
\<close>

definition avanti_quantity :: "pyfloat \<Rightarrow> py_exn + pynum" where
  "avanti_quantity qty =
     (case int_of_float qty of
        Inl e \<Rightarrow> Inl e
      | Inr n \<Rightarrow> if qty = F (of_int n) then Inr (PyInt n) else Inr (PyFloat qty))"

text \<open>The \<open>for line in lines\<close> loop of one page; no conversion stands in a \<open>try\<close>.\<close>

fun avanti_lines ::
  "bool \<Rightarrow> string list \<Rightarrow> line_item list \<Rightarrow> py_exn + line_item list" where
  "avanti_lines include_zero_qty [] items = Inr items"
| "avanti_lines include_zero_qty (line # rest) items =
     (case re_match avanti_rx (strip line) of
        None \<Rightarrow> avanti_lines include_zero_qty rest items
      | Some m \<Rightarrow>
          (case py_float (grp_str m 5) of
             Inl e \<Rightarrow> Inl e
           | Inr qty \<Rightarrow>
               if qty = F 0 \<and> \<not> include_zero_qty
               then avanti_lines include_zero_qty rest items
               else
                 (case py_float (grp_str m 4) of
                    Inl e \<Rightarrow> Inl e
                  | Inr price \<Rightarrow>
                      (case py_float (grp_str m 6) of
                         Inl e \<Rightarrow> Inl e
                       | Inr amount \<Rightarrow>
                           (case avanti_quantity qty of
                              Inl e \<Rightarrow> Inl e
                            | Inr q \<Rightarrow>
                                avanti_lines include_zero_qty rest
                                  (items @
                                   [\<lparr>quantity = q,
                                     item_number = grp_str m 2,
                                     sku = grp_str m 2,
                                     product_description = strip (grp_str m 3),
                                     unit_price = Some price,
                                     total_amount = Some amount\<rparr>]))))))"

definition avanti_page :: "bool \<Rightarrow> page \<Rightarrow> line_item list \<Rightarrow> py_exn + line_item list" where
  "avanti_page include_zero_qty p items =
     (case extract_text p of
        None \<Rightarrow> Inr items
      | Some t \<Rightarrow> if t = [] then Inr items
                  else avanti_lines include_zero_qty (split_lines t) items)"

definition AvantiParser_parse :: "pdf \<Rightarrow> bool \<Rightarrow> py_exn + line_item list" where
  "AvantiParser_parse doc include_zero_qty = over_pages (avanti_page include_zero_qty) doc []"

text \<open>A page with a line that ships two and a half units.\<close>

definition avanti_half_page :: page where
  "avanti_half_page =
     \<lparr>extract_text = Some ''#1 NB2014 QUILLED BIRTHDAY QUEEN 7.50 2.5 18.75'',
      extract_tables = []\<rparr>"

section \<open>Evaluation rules and facts about text\<close>

lemmas rx_defs = re_match_def rx_ws1_def rx_ws0_def rx_digits_def rx_lazy_any_def
  rx_nonspace_def rx_money_def is_digit_def is_space_def not_nl_def

lemmas num_defs = py_float_def py_int_def strip_def is_space_def is_digit_def
  drop_sign_def is_negative_def is_sign_def parse_float_number_def nat_of_digits_def
  digit_val_def dec_to_b64_def b64_round_def bit_length.simps pow2_def py_lower_def
  lower_char_def float_neg_def remove_char_def Let_def

lemma split_lines_no_nl: "CHR 0x0A \<notin> set s \<Longrightarrow> split_lines s = [s]"
  by (induction s) auto

lemma split_lines_append:
  "CHR 0x0A \<notin> set a \<Longrightarrow> split_lines (a @ CHR 0x0A # b) = a # split_lines b"
  by (induction a) auto

section \<open>Properties of vendor detection\<close>

lemma first_match_none:
  "list_all (\<lambda>r. \<not> fst r t) rs \<Longrightarrow> first_match rs t = ''''"
  by (induction rs) auto

lemma first_match_first:
  assumes "i < length rs" "fst (rs ! i) t" "list_all (\<lambda>r. \<not> fst r t) (take i rs)"
  shows "first_match rs t = snd (rs ! i)"
  using assms
proof (induction rs arbitrary: i)
  case Nil
  then show ?case by simp
next
  case (Cons r rs)
  obtain p v where r: "r = (p, v)" by (cases r)
  show ?case
  proof (cases i)
    case 0
    with Cons.prems r show ?thesis by simp
  next
    case (Suc j)
    with Cons.prems r have "\<not> p t" by simp
    moreover from Cons.prems Suc have "first_match rs t = snd (rs ! j)"
      by (intro Cons.IH) auto
    ultimately show ?thesis using r Suc by simp
  qed
qed

lemma first_match_range:
  "first_match rs t \<in> insert '''' (snd ` set rs)"
proof (induction rs)
  case Nil
  then show ?case by simp
next
  case (Cons r rs)
  obtain p v where r: "r = (p, v)" by (cases r)
  from Cons.IH r show ?case by (cases "p t") auto
qed

lemma detect_vendor_rules: "detect_vendor t = first_match vendor_rules t"
  by (simp add: detect_vendor_def vendor_rules_def)

lemma vendor_rules_ids: "map snd vendor_rules = vendor_ids"
  by (simp add: vendor_rules_def vendor_ids_def)

text \<open>
  Claim C5. \<open>detect_vendor\<close> is a total function of the first-page text (a HOL
  function, so the same text always gives the same result). It agrees with the
  ordered rule list read first-match-wins: the result is the identifier of the rule
  at the least index whose predicate holds, it is the empty string when no
  predicate holds, and it is always one of the 23 fixed identifiers or the empty
  string.
\<close>

theorem C5_detect_vendor_first_match:
  "detect_vendor t = first_match vendor_rules t
   \<and> (\<forall>i. i < length vendor_rules \<and> fst (vendor_rules ! i) t
            \<and> list_all (\<lambda>r. \<not> fst r t) (take i vendor_rules)
          \<longrightarrow> detect_vendor t = snd (vendor_rules ! i))
   \<and> (list_all (\<lambda>r. \<not> fst r t) vendor_rules \<longrightarrow> detect_vendor t = '''')
   \<and> detect_vendor t \<in> set ('''' # vendor_ids)"
proof (intro conjI allI impI)
  show "detect_vendor t = first_match vendor_rules t"
    by (rule detect_vendor_rules)
next
  fix i
  assume "i < length vendor_rules \<and> fst (vendor_rules ! i) t
            \<and> list_all (\<lambda>r. \<not> fst r t) (take i vendor_rules)"
  then show "detect_vendor t = snd (vendor_rules ! i)"
    by (simp add: detect_vendor_rules first_match_first)
next
  assume "list_all (\<lambda>r. \<not> fst r t) vendor_rules"
  then show "detect_vendor t = ''''"
    by (simp add: detect_vendor_rules first_match_none)
next
  have "first_match vendor_rules t \<in> insert '''' (snd ` set vendor_rules)"
    by (rule first_match_range)
  also have "snd ` set vendor_rules = set vendor_ids"
    using vendor_rules_ids by (metis set_map)
  finally show "detect_vendor t \<in> set ('''' # vendor_ids)"
    by (simp add: detect_vendor_rules)
qed

text \<open>
  The theorem at two concrete texts: one on which no rule fires, and one on which
  the rules of two vendors fire (index 1, Luxury Brands, and index 5, Lamy), where
  the earlier rule gives the result.
\<close>

theorem C5_detect_vendor_witness:
  "list_all (\<lambda>r. \<not> fst r ''Acme Paper Goods Invoice 1001'') vendor_rules
   \<and> detect_vendor ''Acme Paper Goods Invoice 1001'' = ''''
   \<and> (1::nat) < length vendor_rules
   \<and> fst (vendor_rules ! 1) ''LAMY pens sold by Luxury Brands''
   \<and> fst (vendor_rules ! 5) ''LAMY pens sold by Luxury Brands''
   \<and> list_all (\<lambda>r. \<not> fst r ''LAMY pens sold by Luxury Brands'') (take 1 vendor_rules)
   \<and> detect_vendor ''LAMY pens sold by Luxury Brands'' = ''luxury_brands''"
proof -
  have a: "list_all (\<lambda>r. \<not> fst r ''Acme Paper Goods Invoice 1001'') vendor_rules"
    by (simp add: vendor_rules_def py_lower_def lower_char_def)
  have b: "(1::nat) < length vendor_rules
     \<and> fst (vendor_rules ! 1) ''LAMY pens sold by Luxury Brands''
     \<and> list_all (\<lambda>r. \<not> fst r ''LAMY pens sold by Luxury Brands'') (take 1 vendor_rules)"
    by (simp add: vendor_rules_def)
  have c: "fst (vendor_rules ! 5) ''LAMY pens sold by Luxury Brands''"
    by (simp add: vendor_rules_def)
  have d: "snd (vendor_rules ! 1) = ''luxury_brands''"
    by (simp add: vendor_rules_def)
  from C5_detect_vendor_first_match [of "''Acme Paper Goods Invoice 1001''"] a
  have e: "detect_vendor ''Acme Paper Goods Invoice 1001'' = ''''" by blast
  from C5_detect_vendor_first_match [of "''LAMY pens sold by Luxury Brands''"] b
  have "detect_vendor ''LAMY pens sold by Luxury Brands'' = snd (vendor_rules ! 1)"
    by blast
  with a b c d e show ?thesis by simp
qed

section \<open>The Itoya scanner on the example line\<close>

lemma itoya_example_match:
  "re_match itoya_item_rx itoya_example_line =
     Some [(5, ''3,360.00''), (4, ''1,680.00''), (3, ''2''),
           (2, ''KOP - TAMENURI RADEN '' @ [CHR 0x27] @ ''NAMI'' @ [CHR 0x27] @ '' LE''),
           (1, ''10-9847-620'')]"
  by (simp add: itoya_item_rx_def itoya_example_line_def rx_defs)

lemma itoya_example_nums:
  "py_int ''2'' = Inr 2"
  "py_float (remove_char (CHR '','') ''1,680.00'') = Inr (F 1680)"
  "py_float (remove_char (CHR '','') ''3,360.00'') = Inr (F 3360)"
  by (simp_all add: num_defs)

lemma itoya_example_line_facts:
  "\<not> contains ''Item Description UOM'' itoya_example_line"
  "\<not> contains ''Subtotal'' itoya_example_line"
  "\<not> contains ''Total'' itoya_example_line"
  "\<not> contains ''Page:'' itoya_example_line"
  "\<not> contains ''Net Invoice'' itoya_example_line"
  "strip itoya_example_line \<noteq> []"
  "CHR 0x0A \<notin> set itoya_example_line"
  by (simp_all add: itoya_example_line_def strip_def is_space_def)

text \<open>
  Claim C8. On a page whose header line opens the items section, the example line
  followed by one continuation line (non-blank, not starting like an item line:
  digits and hyphens then white space) gives exactly one record: quantity 2 from
  the shipped column, the item number as both identifiers, the prices with their
  thousands separators removed. The continuation line joins the description.
\<close>

theorem C8_itoya_example:
  assumes h: "contains ''Item Description UOM'' h" "CHR 0x0A \<notin> set h"
    and c: "CHR 0x0A \<notin> set c" "strip c \<noteq> []"
           "re_match itoya_next_item_rx (strip c) = None"
  shows "ItoyaParser_parse
           [\<lparr>extract_text = Some (h @ [CHR 0x0A] @ itoya_example_line @ [CHR 0x0A] @ c),
             extract_tables = []\<rparr>] include_zero_qty
         = Inr [\<lparr>quantity = PyInt 2, item_number = ''10-9847-620'', sku = ''10-9847-620'',
                 product_description =
                   ''KOP - TAMENURI RADEN '' @ [CHR 0x27] @ ''NAMI'' @ [CHR 0x27] @ '' LE ''
                     @ strip c,
                 unit_price = Some (F 1680), total_amount = Some (F 3360)\<rparr>]"
proof -
  let ?lines = "[h, itoya_example_line, c]"
  have sl: "split_lines (h @ [CHR 0x0A] @ itoya_example_line @ [CHR 0x0A] @ c) = ?lines"
    using h(2) c(1) itoya_example_line_facts(7)
    by (simp add: split_lines_append split_lines_no_nl)
  have cont: "itoya_continuation ?lines (Suc 0) = ([strip c], 1)"
    using c by (simp add: itoya_continuation_def)
  have sd: "strip (''KOP - TAMENURI RADEN '' @ [CHR 0x27] @ ''NAMI'' @ [CHR 0x27] @ '' LE'')
      = ''KOP - TAMENURI RADEN '' @ [CHR 0x27] @ ''NAMI'' @ [CHR 0x27] @ '' LE''"
       "strip ''10-9847-620'' = ''10-9847-620''"
    by (simp_all add: strip_def is_space_def)
  have s3: "\<And>items. itoya_scan include_zero_qty ?lines (Suc (Suc (Suc 0))) True items = Inr items"
    by (subst itoya_scan.simps) simp
  have s1: "itoya_scan include_zero_qty ?lines (Suc 0) True [] =
      Inr [\<lparr>quantity = PyInt 2, item_number = ''10-9847-620'', sku = ''10-9847-620'',
                 product_description =
                   ''KOP - TAMENURI RADEN '' @ [CHR 0x27] @ ''NAMI'' @ [CHR 0x27] @ '' LE ''
                     @ strip c,
                 unit_price = Some (F 1680), total_amount = Some (F 3360)\<rparr>]"
    apply (subst itoya_scan.simps)
    using sd apply (simp add: itoya_example_line_facts itoya_example_match cont grp_str_def
        itoya_example_nums s3 Let_def)
    done
  have s0: "itoya_scan include_zero_qty ?lines 0 False [] =
            itoya_scan include_zero_qty ?lines (Suc 0) True []"
    by (subst itoya_scan.simps) (simp add: h)
  have ne: "h @ [CHR 0x0A] @ itoya_example_line @ [CHR 0x0A] @ c \<noteq> []" by simp
  show ?thesis
    unfolding ItoyaParser_parse_def
    by (simp add: itoya_page_def sl s0 s1 del: append.simps append_assoc)
qed

text \<open>The theorem at a concrete header and continuation line.\<close>

theorem C8_itoya_example_witness:
  "contains ''Item Description UOM'' ''Item Description UOM Ordered Shipped Back Ordered Price Amount''
   \<and> CHR 0x0A \<notin> set ''Item Description UOM Ordered Shipped Back Ordered Price Amount''
   \<and> CHR 0x0A \<notin> set ''(URUSHI FOUNTAIN PEN)''
   \<and> strip ''(URUSHI FOUNTAIN PEN)'' = ''(URUSHI FOUNTAIN PEN)''
   \<and> re_match itoya_next_item_rx (strip ''(URUSHI FOUNTAIN PEN)'') = None
   \<and> ItoyaParser_parse
         [\<lparr>extract_text = Some (''Item Description UOM Ordered Shipped Back Ordered Price Amount''
              @ [CHR 0x0A] @ itoya_example_line @ [CHR 0x0A] @ ''(URUSHI FOUNTAIN PEN)''),
           extract_tables = []\<rparr>] False
       = Inr [\<lparr>quantity = PyInt 2, item_number = ''10-9847-620'', sku = ''10-9847-620'',
               product_description =
                 ''KOP - TAMENURI RADEN '' @ [CHR 0x27] @ ''NAMI'' @ [CHR 0x27] @ '' LE ''
                   @ ''(URUSHI FOUNTAIN PEN)'',
               unit_price = Some (F 1680), total_amount = Some (F 3360)\<rparr>]"
proof -
  have a: "contains ''Item Description UOM''
             ''Item Description UOM Ordered Shipped Back Ordered Price Amount''"
    by simp
  have b: "CHR 0x0A \<notin> set ''Item Description UOM Ordered Shipped Back Ordered Price Amount''"
    by simp
  have c: "CHR 0x0A \<notin> set ''(URUSHI FOUNTAIN PEN)''"
    by simp
  have d: "strip ''(URUSHI FOUNTAIN PEN)'' = ''(URUSHI FOUNTAIN PEN)''"
    by (simp add: strip_def is_space_def)
  have e: "re_match itoya_next_item_rx (strip ''(URUSHI FOUNTAIN PEN)'') = None"
    unfolding d by (simp add: itoya_next_item_rx_def rx_defs)
  have f: "strip ''(URUSHI FOUNTAIN PEN)'' \<noteq> []"
    unfolding d by simp
  from C8_itoya_example [OF a b c f e, of False] a b c d e
  show ?thesis by simp
qed

section \<open>Registry and dispatch\<close>

lemma registry_keys: "map fst CUSTOM_PARSERS = vendor_ids"
  by (simp add: CUSTOM_PARSERS_def vendor_ids_def)

lemma detect_vendor_in_ids: "detect_vendor t \<noteq> [] \<Longrightarrow> detect_vendor t \<in> set vendor_ids"
proof -
  assume ne: "detect_vendor t \<noteq> []"
  have "first_match vendor_rules t \<in> insert '''' (snd ` set vendor_rules)"
    by (rule first_match_range)
  moreover have "snd ` set vendor_rules = set vendor_ids"
    using vendor_rules_ids by (metis set_map)
  ultimately show ?thesis using ne by (simp add: detect_vendor_rules)
qed

lemma detect_vendor_registered:
  "detect_vendor t \<noteq> [] \<Longrightarrow> \<exists>cls. map_of CUSTOM_PARSERS (detect_vendor t) = Some cls"
proof -
  assume "detect_vendor t \<noteq> []"
  then have "detect_vendor t \<in> set (map fst CUSTOM_PARSERS)"
    using detect_vendor_in_ids registry_keys by simp
  then have "map_of CUSTOM_PARSERS (detect_vendor t) \<noteq> None"
    by (simp add: map_of_eq_None_iff)
  then show ?thesis by auto
qed

text \<open>A one-page Itoya document with the section header and no item line.\<close>

lemma itoya_header_only:
  "ItoyaParser_parse
     [\<lparr>extract_text = Some ''ITOYA Item Description UOM Ordered Shipped'',
       extract_tables = []\<rparr>] True = Inr []"
proof -
  have "itoya_scan True [''ITOYA Item Description UOM Ordered Shipped''] 0 False [] = Inr []"
    apply (subst itoya_scan.simps)
    apply simp
    apply (subst itoya_scan.simps)
    apply simp
    done
  then show ?thesis
    by (simp add: ItoyaParser_parse_def itoya_page_def)
qed

text \<open>
  Claim C10 as stated fails in its last part: the dispatcher returns the empty list
  also when detection succeeds and the vendor's scanner finds no item. Here the
  first page names Itoya and opens the items section, the registered class is
  \<open>ItoyaParser\<close>, and the result is the empty list although the document has a page
  and the detected vendor is \<open>itoya\<close> (whatever the other classes' methods are).
\<close>

theorem C10_dispatch_counterexample:
  "\<forall>parse_of.
     parse_with_custom_parser (parse_of (ItoyaParser := ItoyaParser_parse))
       [\<lparr>extract_text = Some ''ITOYA Item Description UOM Ordered Shipped'',
         extract_tables = []\<rparr>] True = Inr []
     \<and> [\<lparr>extract_text = Some ''ITOYA Item Description UOM Ordered Shipped'',
          extract_tables = []\<rparr>] \<noteq> []
     \<and> detect_vendor
          (first_page_text [\<lparr>extract_text = Some ''ITOYA Item Description UOM Ordered Shipped'',
                             extract_tables = []\<rparr>]) = ''itoya''"
  by (simp add: parse_with_custom_parser_def first_page_text_def detect_vendor_def
      CUSTOM_PARSERS_def itoya_header_only)

text \<open>
  Claim C10, amended. Every non-empty identifier \<open>detect_vendor\<close> returns is a key of
  the registry; when the document has a page and detection gives a non-empty
  identifier, the dispatcher returns exactly what the registered class's \<open>parse\<close>
  returns on the document (which may be the empty list); when the document has no
  page, or detection gives the empty string, it returns the empty list.
\<close>

theorem C10_dispatch:
  "(detect_vendor t \<noteq> [] \<longrightarrow> detect_vendor t \<in> set (map fst CUSTOM_PARSERS))
   \<and> (doc \<noteq> [] \<and> detect_vendor (first_page_text doc) \<noteq> [] \<longrightarrow>
        (\<exists>cls. map_of CUSTOM_PARSERS (detect_vendor (first_page_text doc)) = Some cls
               \<and> parse_with_custom_parser parse_of doc include_zero_qty
                   = parse_of cls doc include_zero_qty))
   \<and> (doc = [] \<or> detect_vendor (first_page_text doc) = [] \<longrightarrow>
        parse_with_custom_parser parse_of doc include_zero_qty = Inr [])"
proof (intro conjI impI)
  assume "detect_vendor t \<noteq> []"
  then show "detect_vendor t \<in> set (map fst CUSTOM_PARSERS)"
    using detect_vendor_in_ids registry_keys by simp
next
  assume a: "doc \<noteq> [] \<and> detect_vendor (first_page_text doc) \<noteq> []"
  then obtain cls where
    cls: "map_of CUSTOM_PARSERS (detect_vendor (first_page_text doc)) = Some cls"
    using detect_vendor_registered by blast
  with a have "parse_with_custom_parser parse_of doc include_zero_qty
                 = parse_of cls doc include_zero_qty"
    by (simp add: parse_with_custom_parser_def)
  with cls show "\<exists>cls. map_of CUSTOM_PARSERS (detect_vendor (first_page_text doc)) = Some cls
               \<and> parse_with_custom_parser parse_of doc include_zero_qty
                   = parse_of cls doc include_zero_qty"
    by blast
next
  assume "doc = [] \<or> detect_vendor (first_page_text doc) = []"
  then show "parse_with_custom_parser parse_of doc include_zero_qty = Inr []"
    by (auto simp: parse_with_custom_parser_def)
qed

text \<open>
  The theorem at the one-page Itoya document above and at the document without
  pages, for any methods of the registered classes.
\<close>

theorem C10_dispatch_witness:
  "\<forall>parse_of.
     detect_vendor ''ITOYA Item Description UOM Ordered Shipped'' = ''itoya''
     \<and> ''itoya'' \<in> set (map fst CUSTOM_PARSERS)
     \<and> map_of CUSTOM_PARSERS ''itoya'' = Some ItoyaParser
     \<and> parse_with_custom_parser parse_of
          [\<lparr>extract_text = Some ''ITOYA Item Description UOM Ordered Shipped'',
            extract_tables = []\<rparr>] True
        = parse_of ItoyaParser
          [\<lparr>extract_text = Some ''ITOYA Item Description UOM Ordered Shipped'',
            extract_tables = []\<rparr>] True
     \<and> parse_with_custom_parser parse_of [] True = Inr []"
proof
  fix parse_of :: "parser_class \<Rightarrow> scanner"
  let ?t = "''ITOYA Item Description UOM Ordered Shipped''"
  let ?doc = "[\<lparr>extract_text = Some ?t, extract_tables = []\<rparr>]"
  have dv: "detect_vendor ?t = ''itoya''"
    by (simp add: detect_vendor_def)
  have fp: "first_page_text ?doc = ?t"
    by (simp add: first_page_text_def)
  have reg: "map_of CUSTOM_PARSERS ''itoya'' = Some ItoyaParser"
    by (simp add: CUSTOM_PARSERS_def)
  have ne: "detect_vendor ?t \<noteq> []" "?doc \<noteq> []"
    by (simp_all add: dv)
  from C10_dispatch [of ?t ?doc parse_of True] ne fp dv reg
  have 1: "''itoya'' \<in> set (map fst CUSTOM_PARSERS)"
    and 2: "parse_with_custom_parser parse_of ?doc True = parse_of ItoyaParser ?doc True"
    by auto
  from C10_dispatch [of ?t "[]" parse_of True]
  have 3: "parse_with_custom_parser parse_of [] True = Inr []"
    by simp
  from dv reg 1 2 3
  show "detect_vendor ?t = ''itoya''
     \<and> ''itoya'' \<in> set (map fst CUSTOM_PARSERS)
     \<and> map_of CUSTOM_PARSERS ''itoya'' = Some ItoyaParser
     \<and> parse_with_custom_parser parse_of ?doc True = parse_of ItoyaParser ?doc True
     \<and> parse_with_custom_parser parse_of [] True = Inr []"
    by simp
qed

section \<open>The Chartpak scanner and the zero-quantity gate\<close>

lemma chartpak_split:
  "split_lines (chartpak_header @ [CHR 0x0A] @ ''EA 2 N868-51 A6 5MM GRE 32.000 .550 14.400 .00'')
     = [chartpak_header, ''EA 2 N868-51 A6 5MM GRE 32.000 .550 14.400 .00'']"
  "split_lines (chartpak_header @ [CHR 0x0A] @ ''0 EA 2 N868-51 A6 5MM GRE 32.000 .550 14.400 .00'')
     = [chartpak_header, ''0 EA 2 N868-51 A6 5MM GRE 32.000 .550 14.400 .00'']"
  by (simp_all add: chartpak_header_def)

lemma chartpak_header_facts:
  "contains ''SHIPPED'' chartpak_header" "contains ''UNIT'' chartpak_header"
  "contains ''CATALOG'' chartpak_header"
  by (simp_all add: chartpak_header_def)

lemma chartpak_backorder_line:
  "strip ''EA 2 N868-51 A6 5MM GRE 32.000 .550 14.400 .00''
     = ''EA 2 N868-51 A6 5MM GRE 32.000 .550 14.400 .00''"
  "re_match chartpak_fmt1_rx ''EA 2 N868-51 A6 5MM GRE 32.000 .550 14.400 .00'' = None"
  "re_match chartpak_fmt2_rx ''EA 2 N868-51 A6 5MM GRE 32.000 .550 14.400 .00''
     = Some [(7, ''.00''), (6, ''14.400''), (5, ''.550''), (4, ''32.000''),
             (3, ''A6 5MM GRE''), (2, ''N868-51''), (1, ''2'')]"
  by (simp_all add: strip_def chartpak_fmt1_rx_def chartpak_fmt2_rx_def rx_dotnum_def
      rx_item_code_def is_upper_def rx_defs)

lemma chartpak_zero_shipped_line:
  "strip ''0 EA 2 N868-51 A6 5MM GRE 32.000 .550 14.400 .00''
     = ''0 EA 2 N868-51 A6 5MM GRE 32.000 .550 14.400 .00''"
  "re_match chartpak_fmt1_rx ''0 EA 2 N868-51 A6 5MM GRE 32.000 .550 14.400 .00''
     = Some [(8, ''.00''), (7, ''14.400''), (6, ''.550''), (5, ''32.000''),
             (4, ''A6 5MM GRE''), (3, ''N868-51''), (2, ''2''), (1, ''0'')]"
  by (simp_all add: strip_def chartpak_fmt1_rx_def rx_dotnum_def
      rx_item_code_def is_upper_def rx_defs)

lemma chartpak_nums:
  "py_int ''2'' = Inr 2" "py_int ''0'' = Inr 0"
  "py_float ''14.400'' = Inr (F (8106479329266893 / 562949953421312))"
  "py_float ''.00'' = Inr (F 0)"
  "strip ''A6 5MM GRE'' = ''A6 5MM GRE''"
  by (simp_all add: num_defs)

text \<open>
  Claim C1 at the Chartpak scanner, called with \<open>include_zero_qty = False\<close>: the
  backorder-only line is emitted with quantity 0, whereas the same goods written in
  the first format with 0 shipped are dropped by that branch's gate.
\<close>

theorem C1_chartpak_backorder_line_kept:
  "ChartpakParser_parse [chartpak_backorder_page] False
     = Inr [\<lparr>quantity = PyInt 0, item_number = ''N868-51'', sku = ''N868-51'',
             product_description = ''A6 5MM GRE'',
             unit_price = Some (F (8106479329266893 / 562949953421312)),
             total_amount = Some (F 0)\<rparr>]
   \<and> ChartpakParser_parse [chartpak_zero_shipped_page] False = Inr []"
proof -
  have ne: "\<not> contains ''SHIPPED'' ''EA 2 N868-51 A6 5MM GRE 32.000 .550 14.400 .00''"
           "\<not> contains ''SUB-TOTAL'' ''EA 2 N868-51 A6 5MM GRE 32.000 .550 14.400 .00''"
           "\<not> contains ''TOTAL'' ''EA 2 N868-51 A6 5MM GRE 32.000 .550 14.400 .00''"
           "\<not> contains ''SHIPPED'' ''0 EA 2 N868-51 A6 5MM GRE 32.000 .550 14.400 .00''"
           "\<not> contains ''SUB-TOTAL'' ''0 EA 2 N868-51 A6 5MM GRE 32.000 .550 14.400 .00''"
           "\<not> contains ''TOTAL'' ''0 EA 2 N868-51 A6 5MM GRE 32.000 .550 14.400 .00''"
    by simp_all
  have a: "ChartpakParser_parse [chartpak_backorder_page] False
     = Inr [\<lparr>quantity = PyInt 0, item_number = ''N868-51'', sku = ''N868-51'',
             product_description = ''A6 5MM GRE'',
             unit_price = Some (F (8106479329266893 / 562949953421312)),
             total_amount = Some (F 0)\<rparr>]"
    by (simp add: ChartpakParser_parse_def chartpak_page_def chartpak_backorder_page_def
        chartpak_split chartpak_header_facts chartpak_backorder_line chartpak_nums ne
        grp_str_def del: append.simps)
  have b: "ChartpakParser_parse [chartpak_zero_shipped_page] False = Inr []"
    by (simp add: ChartpakParser_parse_def chartpak_page_def chartpak_zero_shipped_page_def
        chartpak_split chartpak_header_facts chartpak_zero_shipped_line chartpak_nums ne
        grp_str_def del: append.simps)
  from a b show ?thesis by simp
qed

section \<open>The Montblanc scanner and empty descriptions\<close>

lemmas montblanc_rx_defs = montblanc_a_rx_def montblanc_b_rx_def montblanc_footer_rx_def
  montblanc_stop_rx_def montblanc_meta_rx_def rx_article_def rx_page_colon_def

lemma montblanc_header_facts:
  "contains ''Article'' montblanc_header" "contains ''Description'' montblanc_header"
  "contains ''QTY'' montblanc_header"
  by (simp_all add: montblanc_header_def)

lemma montblanc_data_line:
  "\<not> contains ''Article'' ''118848 1 PC 1,015.00 507.50 507.50''"
  "strip ''118848 1 PC 1,015.00 507.50 507.50'' = ''118848 1 PC 1,015.00 507.50 507.50''"
  "re_match montblanc_footer_rx ''118848 1 PC 1,015.00 507.50 507.50'' = None"
  "re_match montblanc_a_rx ''118848 1 PC 1,015.00 507.50 507.50'' = None"
  "re_match montblanc_b_rx ''118848 1 PC 1,015.00 507.50 507.50''
     = Some [(5, ''507.50''), (4, ''507.50''), (3, ''1,015.00''), (2, ''1''), (1, ''118848'')]"
  by (simp_all add: strip_def montblanc_rx_defs rx_defs)

lemma montblanc_nums:
  "py_int ''1'' = Inr 1"
  "py_float (remove_char (CHR '','') ''507.50'') = Inr (F (1015 / 2))"
  by (simp_all add: num_defs)

lemma montblanc_bare_lines:
  "split_lines (montblanc_header @ [CHR 0x0A] @ ''118848 1 PC 1,015.00 507.50 507.50'')
     = [montblanc_header, ''118848 1 PC 1,015.00 507.50 507.50'']"
  by (simp add: montblanc_header_def)

lemma montblanc_bare_scan:
  "montblanc_scan include_zero_qty
     [montblanc_header, ''118848 1 PC 1,015.00 507.50 507.50''] 0 False []
   = [\<lparr>quantity = PyInt 1, item_number = ''118848'', sku = ''118848'',
        product_description = [],
        unit_price = Some (F (1015 / 2)), total_amount = Some (F (1015 / 2))\<rparr>]"
  apply (subst montblanc_scan.simps)
  apply (simp add: montblanc_header_facts)
  apply (subst montblanc_scan.simps)
  apply (simp add: montblanc_data_line montblanc_nums grp_str_def Let_def)
  apply (subst montblanc_scan.simps)
  apply simp
  done

text \<open>
  Claim C3 at the Montblanc scanner's second format: a data line with no description
  line after it (here the last line of the page) is appended as a record whose
  \<open>product_description\<close> is the empty string, for either value of the flag.
\<close>

theorem C3_montblanc_empty_description:
  "MontblancParser_parse [montblanc_bare_page] include_zero_qty
     = Inr [\<lparr>quantity = PyInt 1, item_number = ''118848'', sku = ''118848'',
             product_description = [],
             unit_price = Some (F (1015 / 2)), total_amount = Some (F (1015 / 2))\<rparr>]"
  by (simp add: MontblancParser_parse_def montblanc_page_def montblanc_bare_page_def
      montblanc_bare_lines montblanc_bare_scan del: append.simps)

section \<open>Decimal arithmetic: when the context precision loses nothing\<close>

































section \<open>The Exaclair scanner and its unit price\<close>




















section \<open>Header detection in the generic parser\<close>

lemma find_first_Some:
  "find_first p xs i = Some (k, x) \<longleftrightarrow>
     i \<le> k \<and> k - i < length xs \<and> x = xs ! (k - i) \<and> p x
     \<and> list_all (\<lambda>y. \<not> p y) (take (k - i) xs)"
proof (induction xs arbitrary: i)
  case Nil
  then show ?case by simp
next
  case (Cons y ys)
  show ?case
  proof (cases "p y")
    case True
    then show ?thesis by (cases "k - i") auto
  next
    case False
    have "find_first p (y # ys) i = Some (k, x) \<longleftrightarrow> find_first p ys (Suc i) = Some (k, x)"
      using False by simp
    also have "\<dots> \<longleftrightarrow> Suc i \<le> k \<and> k - Suc i < length ys \<and> x = ys ! (k - Suc i) \<and> p x
       \<and> list_all (\<lambda>y. \<not> p y) (take (k - Suc i) ys)"
      by (rule Cons.IH)
    also have "\<dots> \<longleftrightarrow> i \<le> k \<and> k - i < length (y # ys) \<and> x = (y # ys) ! (k - i) \<and> p x
       \<and> list_all (\<lambda>y. \<not> p y) (take (k - i) (y # ys))"
    proof (cases "k - i")
      case 0
      with False show ?thesis by auto
    next
      case (Suc d)
      then have "k - Suc i = d" "Suc i \<le> k" "i \<le> k" by simp_all
      with Suc False show ?thesis by simp
    qed
    finally show ?thesis .
  qed
qed

lemma find_first_None:
  "find_first p xs i = None \<longleftrightarrow> list_all (\<lambda>y. \<not> p y) xs"
  by (induction xs arbitrary: i) auto

lemma find_header_Some:
  "find_header t = Some (idx, row) \<longleftrightarrow>
     idx < 5 \<and> idx < length t \<and> row = t ! idx \<and> is_line_items_table row
     \<and> (\<forall>j<idx. \<not> is_line_items_table (t ! j))"
proof -
  have "find_header t = Some (idx, row) \<longleftrightarrow>
     idx < length (take 5 t) \<and> row = take 5 t ! idx \<and> is_line_items_table row
     \<and> list_all (\<lambda>y. \<not> is_line_items_table y) (take idx (take 5 t))"
    by (simp add: find_header_def find_first_Some)
  also have "\<dots> \<longleftrightarrow> idx < 5 \<and> idx < length t \<and> row = t ! idx \<and> is_line_items_table row
     \<and> (\<forall>j<idx. \<not> is_line_items_table (t ! j))"
  proof (cases "idx < 5 \<and> idx < length t")
    case True
    then have "take idx (take 5 t) = take idx t" by (simp add: min_def)
    moreover have "list_all (\<lambda>y. \<not> is_line_items_table y) (take idx t)
                     \<longleftrightarrow> (\<forall>j<idx. \<not> is_line_items_table (t ! j))"
      using True by (auto simp: list_all_length)
    ultimately show ?thesis using True by simp
  next
    case False
    then show ?thesis by auto
  qed
  finally show ?thesis .
qed

lemma find_header_None:
  "find_header t = None \<longleftrightarrow> (\<forall>j. j < 5 \<and> j < length t \<longrightarrow> \<not> is_line_items_table (t ! j))"
  by (auto simp: find_header_def find_first_None list_all_length)

lemma indicator_present_iff:
  "ind \<noteq> [] \<Longrightarrow> indicator_present row ind = occurs_in_row row ind"
proof -
  assume ne: "ind \<noteq> []"
  have "\<And>c. contains ind (case truthy c of None \<Rightarrow> [] | Some s \<Rightarrow> py_lower s)
          = (case c of None \<Rightarrow> False | Some s \<Rightarrow> contains ind (py_lower s))"
    using ne by (auto simp: truthy_def py_lower_def split: option.splits)
  then show ?thesis
    by (simp add: indicator_present_def occurs_in_row_def header_texts_def list_ex_iff)
qed

lemma is_line_items_table_card:
  "is_line_items_table row \<longleftrightarrow>
     3 \<le> card {ind \<in> set line_item_indicators. occurs_in_row row ind}"
proof -
  have d: "distinct line_item_indicators" by (simp add: line_item_indicators_def)
  have ne: "\<forall>ind \<in> set line_item_indicators. ind \<noteq> []"
    by (simp add: line_item_indicators_def)
  have "filter (indicator_present row) line_item_indicators
          = filter (occurs_in_row row) line_item_indicators"
    using ne by (intro filter_cong) (simp_all add: indicator_present_iff)
  moreover have "length (filter (occurs_in_row row) line_item_indicators)
          = card {ind \<in> set line_item_indicators. occurs_in_row row ind}"
    using d by (simp add: distinct_length_filter Int_def conj_commute)
  ultimately have len: "length (filter (indicator_present row) line_item_indicators)
          = card {ind \<in> set line_item_indicators. occurs_in_row row ind}"
    by simp
  show ?thesis
  proof (cases "row = []")
    case True
    have e: "{ind \<in> set line_item_indicators. occurs_in_row [] ind} = {}"
      by (simp add: occurs_in_row_def)
    show ?thesis unfolding True e by (simp add: is_line_items_table_def)
  next
    case False
    with len show ?thesis by (simp add: is_line_items_table_def)
  qed
qed

lemmas header_eval = is_line_items_table_def indicator_present_def header_texts_def truthy_def
  py_lower_def lower_char_def line_item_indicators_def find_header_def

text \<open>
  Claim C6 as stated fails: the code counts eight indicator terms, the seven of the
  claim and \<open>qty\<close>. A row with the cells Qty, Price, Amount holds only two of the
  seven terms and is selected as header.
\<close>

theorem C6_header_counterexample:
  "find_header [[Some ''Qty'', Some ''Price'', Some ''Amount'']]
     = Some (0, [Some ''Qty'', Some ''Price'', Some ''Amount''])
   \<and> filter (occurs_in_row [Some ''Qty'', Some ''Price'', Some ''Amount'']) spec_indicators
       = [''price'', ''amount'']"
  by (simp add: header_eval occurs_in_row_def spec_indicators_def)

text \<open>
  Claim C6, amended. Among the first 5 rows of a table, the row selected as header is
  the earliest row in which at least 3 of the eight indicator terms (qty, quantity,
  item, sku, product, price, amount, total) occur as substrings of the lower-cased
  cell texts; no row is selected exactly when none of the first 5 rows has 3 of them.
  The eight terms are the seven of the specification and \<open>qty\<close>. The header row Qty,
  Item#, SKU, Description, Price, Amount is recognised.
\<close>

theorem C6_header_detection:
  "(find_header t = Some (idx, row) \<longleftrightarrow>
      idx < 5 \<and> idx < length t \<and> row = t ! idx
      \<and> 3 \<le> card {ind \<in> set line_item_indicators. occurs_in_row row ind}
      \<and> (\<forall>j<idx. card {ind \<in> set line_item_indicators. occurs_in_row (t ! j) ind} < 3))
   \<and> (find_header t = None \<longleftrightarrow>
      (\<forall>j. j < 5 \<and> j < length t \<longrightarrow>
           card {ind \<in> set line_item_indicators. occurs_in_row (t ! j) ind} < 3))
   \<and> set line_item_indicators = insert ''qty'' (set spec_indicators)
   \<and> find_header [example_header, example_row] = Some (0, example_header)"
proof (intro conjI)
  show "find_header t = Some (idx, row) \<longleftrightarrow>
      idx < 5 \<and> idx < length t \<and> row = t ! idx
      \<and> 3 \<le> card {ind \<in> set line_item_indicators. occurs_in_row row ind}
      \<and> (\<forall>j<idx. card {ind \<in> set line_item_indicators. occurs_in_row (t ! j) ind} < 3)"
    by (simp add: find_header_Some is_line_items_table_card not_le)
  show "find_header t = None \<longleftrightarrow>
      (\<forall>j. j < 5 \<and> j < length t \<longrightarrow>
           card {ind \<in> set line_item_indicators. occurs_in_row (t ! j) ind} < 3)"
    by (simp add: find_header_None is_line_items_table_card not_le)
  show "set line_item_indicators = insert ''qty'' (set spec_indicators)"
    by (auto simp: line_item_indicators_def spec_indicators_def)
  show "find_header [example_header, example_row] = Some (0, example_header)"
    by (simp add: header_eval example_header_def)
qed

text \<open>
  The theorem at a table whose first row is a title and whose second row is the
  example header: the second row is selected, the first has no indicator term.
\<close>

theorem C6_header_detection_witness:
  "find_header [[Some ''Invoice 1001''], example_header, example_row] = Some (1, example_header)
   \<and> (1::nat) < 5
   \<and> 1 < length [[Some ''Invoice 1001''], example_header, example_row]
   \<and> 3 \<le> card {ind \<in> set line_item_indicators. occurs_in_row example_header ind}
   \<and> card {ind \<in> set line_item_indicators. occurs_in_row [Some ''Invoice 1001''] ind} < 3"
proof -
  let ?t = "[[Some ''Invoice 1001''], example_header, example_row]"
  have run: "find_header ?t = Some (1, example_header)"
    by (simp add: header_eval example_header_def)
  from C6_header_detection [of ?t 1 example_header] run
  have "3 \<le> card {ind \<in> set line_item_indicators. occurs_in_row example_header ind}"
    and "\<forall>j<1. card {ind \<in> set line_item_indicators. occurs_in_row (?t ! j) ind} < 3"
    by blast+
  then show ?thesis using run by simp
qed

section \<open>Continuation tables in the generic parser\<close>

lemma trimmed_row_trim_blank:
  assumes "list_ex nonblank row"
  shows "trimmed_row row = trim_blank row"
proof -
  let ?b = "\<lambda>c. \<not> nonblank c"
  define pre where "pre = takeWhile ?b row"
  define mid where "mid = dropWhile ?b row"
  define suf where "suf = takeWhile ?b (rev mid)"
  define core where "core = rev (dropWhile ?b (rev mid))"
  have row: "row = pre @ mid" by (simp add: pre_def mid_def)
  have midne: "mid \<noteq> []"
    using assms unfolding mid_def list_ex_iff by (auto simp: dropWhile_eq_Nil_conv)
  have hd: "nonblank (hd mid)"
    using hd_dropWhile [of ?b row] midne by (simp add: mid_def)
  have mid: "mid = core @ rev suf"
  proof -
    have "rev mid = suf @ dropWhile ?b (rev mid)" by (simp add: suf_def)
    then have "rev (rev mid) = rev (suf @ dropWhile ?b (rev mid))" by (rule arg_cong)
    then show ?thesis by (simp add: core_def)
  qed
  have ex_mid: "\<exists>c\<in>set (rev mid). nonblank c"
    using midne hd by (metis hd_in_set set_rev)
  have tw: "takeWhile ?b (rev row) = suf"
  proof -
    have "takeWhile ?b (rev mid @ rev pre) = takeWhile ?b (rev mid)"
      using ex_mid by (intro takeWhile_append1 [where x = "SOME c. c \<in> set (rev mid) \<and> nonblank c"])
        (auto intro: someI2_ex)
    then show ?thesis by (simp add: row suf_def)
  qed
  have s: "start_idx row = length pre"
    using assms by (simp add: start_idx_def pre_def)
  have e: "end_idx row = length row - length suf"
    using assms by (simp add: end_idx_def tw)
  have "trimmed_row row = take (length row - length suf - length pre) (drop (length pre) row)"
    by (simp add: trimmed_row_def s e)
  also have "drop (length pre) row = mid" by (simp add: row)
  also have "length row - length suf - length pre = length core"
    using mid by (simp add: row)
  also have "take (length core) mid = core" using mid by simp
  finally show ?thesis by (simp add: trim_blank_def core_def mid_def)
qed

end
